theory Spec2Isabelle
  imports Complex_Main "HOL-Library.Multiset"
begin

section \<open>Geobridge: regions, boundaries and height statistics of \<open>src/App.js\<close>\<close>

text \<open>
  The embedding follows \<open>src/src/App.js\<close>. JavaScript numbers are read as real numbers
  (rounding of doubles is not modelled); the two places where the source can leave the
  finite numbers are written out: a dataset getter may return \<open>NaN\<close> or throw, and the
  height formula may divide by zero or raise a negative base to a fractional power.
  Strings are lists of 8-bit code units; the region keys, continent and subregion names of
  the source are ASCII. Reading \<open>obj[key]\<close> from a plain object also finds the
  properties that every object inherits (\<open>constructor\<close>, \<open>toString\<close> and the
  others of \<open>inheritedKeys\<close>), all of them truthy. The filters that admit features
  test \<open>REGION_MAPPING[code]\<close> for truthiness, and \<open>hasRegion\<close> follows them there.
  Where the source would hand such an inherited property on as a value (a country code
  out of \<open>MANUAL_COUNTRY_MAPPING\<close>, a region out of the static branch of
  \<open>getCountryRegion\<close>, a getter out of \<open>HEIGHT_GETTERS\<close>) the definitions read
  the keys that the literal lists.
\<close>

subsection \<open>Features\<close>

type_synonym point = "real \<times> real"
type_synonym ring = "point list"

datatype geometry =
    Polygon "ring list"
  | MultiPolygon "ring list list"
  | OtherGeometry

record properties =
  ISO_A2 :: "string option"
  ADMIN :: "string option"
  NAME :: "string option"
  CONTINENT :: "string option"
  SUBREGION :: "string option"
  REGION_UN :: "string option"
  GDP_MD_EST :: "real option"
  GDP_MD :: "real option"
  POP_EST :: "real option"
  POP2005 :: "real option"

record feature =
  properties :: properties
  geometry :: geometry

text \<open>
  A property is absent (\<open>None\<close>) or present; of the property bag only the fields read
  by the functions below are kept. The empty string is falsy.
\<close>

definition truthy :: "string option \<Rightarrow> bool" where
  "truthy v = (case v of None \<Rightarrow> False | Some s \<Rightarrow> s \<noteq> [])"

definition js_or :: "string option \<Rightarrow> string option \<Rightarrow> string option" where
  "js_or a b = (if truthy a then a else b)"

definition or_default :: "string option \<Rightarrow> string \<Rightarrow> string" where
  "or_default a d = (case a of None \<Rightarrow> d | Some s \<Rightarrow> if s = [] then d else s)"

subsection \<open>The static region table\<close>

definition REGIONS :: "(string \<times> string list) list" where
  "REGIONS =
   [(''north_america'', [''CA'', ''US'', ''MX'']),
    (''central_america_caribbean'',
      [''GT'', ''BZ'', ''HN'', ''SV'', ''NI'', ''CR'', ''PA'', ''CU'', ''JM'', ''HT'',
       ''DO'', ''KN'', ''AG'', ''DM'', ''LC'', ''BB'', ''VC'', ''GD'', ''BS'']),
    (''south_america'',
      [''AR'', ''BR'', ''BO'', ''CL'', ''PY'', ''UY'', ''CO'', ''EC'', ''VE'',
       ''GY'', ''SR'', ''PE'']),
    (''southwest_europe'', [''ES'', ''PT'', ''AD'']),
    (''south_europe'', [''IT'', ''GR'', ''MT'', ''SM'']),
    (''central_europe'', [''DE'', ''AT'', ''LI'', ''CH'', ''PL'', ''HU'', ''SK'', ''CZ'', ''SI'']),
    (''west_europe'', [''GB'', ''IE'', ''NL'', ''BE'', ''LU'', ''MC'', ''FR'']),
    (''north_europe'', [''DK'', ''IS'', ''NO'', ''SE'', ''FI'']),
    (''southeast_europe'', [''AL'', ''BA'', ''HR'', ''MK'', ''ME'', ''RS'', ''RO'', ''BG'', ''XK'']),
    (''east_europe'', [''RU'', ''EE'', ''LV'', ''LT'', ''BY'', ''UA'', ''MD'']),
    (''north_africa'', [''EG'', ''LY'', ''DZ'', ''MA'', ''TN'']),
    (''central_africa'', [''TD'', ''CF'', ''CM'', ''GQ'', ''GA'', ''CG'', ''CD'', ''AO'']),
    (''east_africa'',
      [''SD'', ''ER'', ''DJ'', ''SO'', ''ET'', ''SS'', ''KE'', ''UG'', ''TZ'',
       ''RW'', ''BI'', ''ZM'', ''MW'', ''MZ'', ''ZW'', ''KM'', ''MG'']),
    (''west_africa'',
      [''EH'', ''MR'', ''ML'', ''SN'', ''GM'', ''GW'', ''GN'', ''SL'', ''LR'',
       ''CI'', ''GH'', ''TG'', ''BJ'', ''BF'', ''NE'', ''NG'']),
    (''south_africa'', [''NA'', ''BW'', ''ZA'', ''SZ'', ''LS'']),
    (''middle_east'',
      [''GE'', ''CY'', ''TR'', ''SY'', ''LB'', ''AZ'', ''AM'', ''IR'', ''IQ'',
       ''IL'', ''JO'', ''SA'', ''YE'', ''OM'', ''BH'', ''QA'', ''AE'', ''KW'', ''PS'']),
    (''indian_subcontinent'', [''IN'', ''AF'', ''PK'', ''NP'', ''BD'', ''BT'', ''LK'']),
    (''central_asia'', [''KZ'', ''UZ'', ''TM'', ''TJ'', ''KG'']),
    (''eastern_asia'',
      [''CN'', ''KP'', ''KR'', ''JP'', ''MM'', ''TH'', ''KH'', ''VN'', ''LA'',
       ''ID'', ''PH'', ''PG'', ''MY'', ''CN-TW'', ''MN'']),
    (''oceania'', [''AU'', ''NZ'', ''FJ'', ''VU'', ''SB'', ''PW'', ''NR'', ''MH'', ''WS'', ''TO'', ''KI'']),
    (''antarctica'', [''AQ''])]"

text \<open>
  \<open>REGION_MAPPING\<close> is built by a \<open>reduce\<close> over the entries with a \<open>forEach\<close> over
  each member list, every step assigning \<open>acc[country] = region\<close>.
\<close>

definition assignRegion :: "string \<times> string list \<Rightarrow> (string \<rightharpoonup> string) \<Rightarrow> (string \<rightharpoonup> string)" where
  "assignRegion e acc = fold (\<lambda>country a. a(country \<mapsto> fst e)) (snd e) acc"

definition REGION_MAPPING :: "string \<rightharpoonup> string" where
  "REGION_MAPPING = fold assignRegion REGIONS Map.empty"

definition EXCLUDED_COUNTRIES :: "string set" where
  "EXCLUDED_COUNTRIES = set
   [''MU'', ''JE'', ''GG'', ''IM'', ''FO'', ''AX'', ''PM'', ''CV'', ''GS'', ''MV'', ''IO'', ''MP'', ''FM'',
    ''SC'', ''NF'', ''ST'', ''SH'', ''BM'', ''TV'', ''AS'', ''NU'', ''CK'', ''PF'', ''PN'', ''WF'', ''TC'',
    ''KY'', ''AW'', ''CW'', ''VI'', ''VG'', ''AI'', ''MF'', ''SX'', ''BL'', ''MS'', ''HM'', ''TF'', ''GL'',
    ''XN'', ''-99'']"

definition MANUAL_COUNTRY_MAPPING :: "string \<rightharpoonup> string" where
  "MANUAL_COUNTRY_MAPPING = map_of
   [(''Norway'', ''NO''), (''France'', ''FR''), (''Kosovo'', ''XK''),
    (''Somaliland'', ''XS''), (''Northern Cyprus'', ''XN'')]"

text \<open>\<open>MANUAL_COUNTRY_MAPPING[admin]\<close>, where \<open>admin\<close> may be absent.\<close>

definition manualCode :: "string option \<Rightarrow> string option" where
  "manualCode k = (case k of None \<Rightarrow> None | Some s \<Rightarrow> MANUAL_COUNTRY_MAPPING s)"

definition getCountryCode :: "'a feature_scheme \<Rightarrow> string option" where
  "getCountryCode country =
    (let iso2 = ISO_A2 (properties country);
         admin = ADMIN (properties country);
         name = NAME (properties country)
     in if truthy iso2 \<and> iso2 \<noteq> Some ''-99'' \<and> iso2 \<noteq> Some ''n/a'' then iso2
        else js_or (js_or (manualCode admin) (manualCode name)) iso2)"

subsection \<open>Region keys\<close>

text \<open>\<open>toLowerCase\<close> on ASCII text.\<close>

definition lowerChar :: "char \<Rightarrow> char" where
  "lowerChar c =
    (case map_of (zip ''ABCDEFGHIJKLMNOPQRSTUVWXYZ'' ''abcdefghijklmnopqrstuvwxyz'') c of
       None \<Rightarrow> c | Some d \<Rightarrow> d)"

definition toLowerCase :: "string \<Rightarrow> string" where
  "toLowerCase s = map lowerChar s"

text \<open>
  The character class \<open>[\s&]\<close>: the white space of \<open>\s\<close> (tab, line feed, vertical tab,
  form feed, carriage return, space, no-break space) and the ampersand.
\<close>

definition isSpaceOrAmp :: "char \<Rightarrow> bool" where
  "isSpaceOrAmp c = (c \<in> set [CHR 0x09, CHR 0x0A, CHR 0x0B, CHR 0x0C, CHR 0x0D, CHR 0x20, CHR 0xA0, CHR ''&''])"

text \<open>
  \<open>.replace(/[\s&]+/g, '_')\<close>: every maximal run of such characters becomes one
  underscore. The flag says that the previous character belonged to a run.
\<close>

fun replaceRuns :: "(char \<Rightarrow> bool) \<Rightarrow> bool \<Rightarrow> string \<Rightarrow> string" where
  "replaceRuns P inRun [] = []"
| "replaceRuns P inRun (c # cs) =
    (if P c then (if inRun then replaceRuns P True cs else CHR ''_'' # replaceRuns P True cs)
     else c # replaceRuns P False cs)"

definition regionSlug :: "string \<Rightarrow> string" where
  "regionSlug s = replaceRuns isSpaceOrAmp False (toLowerCase s)"

text \<open>The key computed inside \<open>createDataDrivenRegions\<close> for one country.\<close>

definition dataDrivenRegionKey :: "feature \<Rightarrow> string" where
  "dataDrivenRegionKey country =
    (let continent = or_default (CONTINENT (properties country)) ''Unknown'';
         subregion = or_default (js_or (SUBREGION (properties country)) (REGION_UN (properties country))) ''Unknown''
     in if continent = ''Europe'' then regionSlug (''europe_'' @ subregion)
        else if continent = ''Africa'' then regionSlug (''africa_'' @ subregion)
        else if continent = ''Asia'' then regionSlug (''asia_'' @ subregion)
        else if continent = ''North America'' then
          (if subregion = ''Northern America'' then ''north_america'' else ''central_america_caribbean'')
        else if continent = ''South America'' then ''south_america''
        else if continent = ''Oceania'' then regionSlug (''oceania_'' @ subregion)
        else regionSlug continent)"

text \<open>\<open>getCountryRegion\<close>; the first argument is \<open>useDataDrivenRegions\<close>.\<close>

definition getCountryRegion :: "bool \<Rightarrow> 'a feature_scheme \<Rightarrow> string" where
  "getCountryRegion useDataDrivenRegions country =
    (let countryCode = getCountryCode country
     in if useDataDrivenRegions then
          (let continent = or_default (CONTINENT (properties country)) ''Unknown'';
               subregion = or_default (js_or (SUBREGION (properties country)) (REGION_UN (properties country))) ''Unknown''
           in if continent = ''Europe'' then regionSlug (''europe_'' @ subregion)
              else if continent = ''Africa'' then regionSlug (''africa_'' @ subregion)
              else if continent = ''Asia'' then regionSlug (''asia_'' @ subregion)
              else if continent = ''North America'' then
                (if subregion = ''Northern America'' then ''north_america'' else ''central_america_caribbean'')
              else if continent = ''South America'' then ''south_america''
              else if continent = ''Oceania'' then regionSlug (''oceania_'' @ subregion)
              else regionSlug continent)
        else
          (case (case countryCode of None \<Rightarrow> None | Some c \<Rightarrow> REGION_MAPPING c) of
             None \<Rightarrow> ''unknown'' | Some manualRegion \<Rightarrow> manualRegion))"

text \<open>
  The wording of the specification, for comparison: lower-case the text and collapse
  every run of characters that are neither letters nor digits to one underscore.
\<close>

definition isAlnum :: "char \<Rightarrow> bool" where
  "isAlnum c = (c \<in> set ''abcdefghijklmnopqrstuvwxyzABCDEFGHIJKLMNOPQRSTUVWXYZ0123456789'')"

definition spec_slug :: "string \<Rightarrow> string" where
  "spec_slug s = replaceRuns (\<lambda>c. \<not> isAlnum c) False (toLowerCase s)"

subsection \<open>Loading the feature collection\<close>

text \<open>
  The two filters of the loading effect, followed by \<open>rewind\<close> of \<open>@turf/rewind\<close>, a
  library function that rewrites geometries and is a parameter here. On a failed fetch
  the collection is empty, as it is initially.
\<close>

definition notExcluded :: "feature \<Rightarrow> bool" where
  "notExcluded f = (case getCountryCode f of None \<Rightarrow> True | Some code \<Rightarrow> code \<notin> EXCLUDED_COUNTRIES)"

text \<open>
  \<open>REGION_MAPPING\<close> is built on \<open>{}\<close>, so \<open>REGION_MAPPING[code]\<close> is truthy for a
  listed country (its region name is not empty) and also for a code that names a
  property inherited from \<open>Object.prototype\<close>.
\<close>

definition inheritedKeys :: "string list" where
  "inheritedKeys =
    [''constructor'', ''toString'', ''toLocaleString'', ''valueOf'', ''hasOwnProperty'',
     ''isPrototypeOf'', ''propertyIsEnumerable'', ''__proto__'', ''__defineGetter__'',
     ''__defineSetter__'', ''__lookupGetter__'', ''__lookupSetter__'']"

definition hasRegion :: "feature \<Rightarrow> bool" where
  "hasRegion f =
    (case getCountryCode f of
       None \<Rightarrow> False
     | Some code \<Rightarrow> REGION_MAPPING code \<noteq> None \<or> code \<in> set inheritedKeys)"

definition loadCountries :: "(geometry \<Rightarrow> geometry) \<Rightarrow> feature list \<Rightarrow> feature list" where
  "loadCountries rewind features =
    (let filtered = filter notExcluded features;
         withRegionsOnly = filter hasRegion filtered
     in map (\<lambda>f. f\<lparr>geometry := rewind (geometry f)\<rparr>) withRegionsOnly)"

datatype layer = Surface | Elevated

record polygon = feature +
  layer :: layer
  layer_index :: nat

text \<open>\<open>createPolygonData\<close>: each feature once per layer, tagged with its index.\<close>

definition createPolygonData :: "feature list \<Rightarrow> polygon list" where
  "createPolygonData countries =
    map (\<lambda>(index, f). feature.extend f \<lparr>layer = Surface, layer_index = index\<rparr>) (enumerate 0 countries) @
    map (\<lambda>(index, f). feature.extend f \<lparr>layer = Elevated, layer_index = index\<rparr>) (enumerate 0 countries)"

subsection \<open>Shared boundary points\<close>

datatype error = TypeError

text \<open>
  \<open>extractCoordinates\<close>. Reading \<open>[0]\<close> of an empty array gives \<open>undefined\<close>
  (\<open>None\<close>); reading a property of \<open>undefined\<close> throws.
\<close>

fun largestPolygon :: "ring list list \<Rightarrow> ring list \<Rightarrow> nat \<Rightarrow> error + ring list" where
  "largestPolygon [] largest maxLength = Inr largest"
| "largestPolygon (polygon # rest) largest maxLength =
    (case polygon of
       [] \<Rightarrow> Inl TypeError
     | outer # _ \<Rightarrow>
         if length outer > maxLength then largestPolygon rest polygon (length outer)
         else largestPolygon rest largest maxLength)"

definition firstRing :: "ring list \<Rightarrow> ring option" where
  "firstRing rings = (case rings of [] \<Rightarrow> None | outer # _ \<Rightarrow> Some outer)"

definition extractCoordinates :: "geometry \<Rightarrow> error + ring option" where
  "extractCoordinates g =
    (case g of
       Polygon rings \<Rightarrow> Inr (firstRing rings)
     | MultiPolygon polygons \<Rightarrow>
         (case polygons of
            [] \<Rightarrow> Inl TypeError
          | first # _ \<Rightarrow>
              (case first of
                 [] \<Rightarrow> Inl TypeError
               | outer # _ \<Rightarrow>
                   (case largestPolygon polygons first (length outer) of
                      Inl e \<Rightarrow> Inl e
                    | Inr largest \<Rightarrow> Inr (firstRing largest))))
     | OtherGeometry \<Rightarrow> Inr (Some []))"

definition distance :: "point \<Rightarrow> point \<Rightarrow> real" where
  "distance a b = sqrt ((fst a - fst b)\<^sup>2 + (snd a - snd b)\<^sup>2)"

definition tolerance :: real where
  "tolerance = 0.01"

text \<open>
  The two nested \<open>forEach\<close> loops of \<open>findSharedBoundary\<close>; the state is
  \<open>(sharedPoints, usedIndices)\<close>.
\<close>

definition matchStep :: "real \<Rightarrow> point \<Rightarrow> nat \<times> point \<Rightarrow> point list \<times> nat set \<Rightarrow> point list \<times> nat set" where
  "matchStep tol coord1 e st =
    (if fst e \<in> snd st then st
     else if distance coord1 (snd e) < tol then (fst st @ [coord1], insert (fst e) (snd st))
     else st)"

definition matchRow :: "real \<Rightarrow> ring \<Rightarrow> point \<Rightarrow> point list \<times> nat set \<Rightarrow> point list \<times> nat set" where
  "matchRow tol coords2 coord1 st = fold (matchStep tol coord1) (enumerate 0 coords2) st"

definition sharedPoints :: "real \<Rightarrow> ring \<Rightarrow> ring \<Rightarrow> point list" where
  "sharedPoints tol coords1 coords2 = fst (fold (matchRow tol coords2) coords1 ([], {}))"

text \<open>
  The inner loop of \<open>sortBoundaryPoints\<close>; the state is \<open>(closestIndex, minDistance)\<close>,
  with \<open>None\<close> for the initial \<open>Infinity\<close>.
\<close>

definition closestStep :: "point \<Rightarrow> nat \<times> point \<Rightarrow> nat \<times> real option \<Rightarrow> nat \<times> real option" where
  "closestStep lastPoint e st =
    (let d = distance lastPoint (snd e)
     in if (case snd st of None \<Rightarrow> True | Some minDistance \<Rightarrow> d < minDistance)
        then (fst e, Some d) else st)"

definition closestIndex :: "point \<Rightarrow> point list \<Rightarrow> nat" where
  "closestIndex lastPoint remaining = fst (fold (closestStep lastPoint) (enumerate 0 remaining) (0, None))"

lemma closestIndex_fold_bound:
  "fst st < k + length ps \<Longrightarrow> fst (fold (closestStep p) (enumerate k ps) st) < k + length ps"
proof (induction ps arbitrary: k st)
  case Nil
  then show ?case by simp
next
  case (Cons q qs)
  have "fst (closestStep p (k, q) st) < Suc k + length qs"
    using Cons.prems by (simp add: closestStep_def Let_def)
  from Cons.IH [OF this] show ?case by simp
qed

lemma closestIndex_less: "remaining \<noteq> [] \<Longrightarrow> closestIndex p remaining < length remaining"
  using closestIndex_fold_bound [of "(0, None)" 0 remaining p]
  by (simp add: closestIndex_def)

function chainPoints :: "point list \<Rightarrow> point list \<Rightarrow> point list" where
  "chainPoints chain remaining =
    (if remaining = [] then chain
     else (let i = closestIndex (last chain) remaining
           in chainPoints (chain @ [remaining ! i]) (take i remaining @ drop (Suc i) remaining)))"
  by pat_completeness auto
termination
proof (relation "measure (\<lambda>(chain, remaining). length remaining)")
  show "wf (measure (\<lambda>(chain, remaining). length remaining))"
    by simp
next
  fix chain remaining :: "point list" and i
  assume "remaining \<noteq> []" and "i = closestIndex (last chain) remaining"
  then have "i < length remaining"
    by (simp add: closestIndex_less)
  then show "((chain @ [remaining ! i], take i remaining @ drop (Suc i) remaining), (chain, remaining))
      \<in> measure (\<lambda>(chain, remaining). length remaining)"
    by simp
qed

declare chainPoints.simps [simp del]

definition sortBoundaryPoints :: "point list \<Rightarrow> point list" where
  "sortBoundaryPoints points =
    (if length points \<le> 2 then points
     else chainPoints [points ! 0] (drop 1 points))"

definition findSharedBoundary :: "ring option \<Rightarrow> ring option \<Rightarrow> real \<Rightarrow> error + point list" where
  "findSharedBoundary c1 c2 tol =
    (case c1 of
       None \<Rightarrow> Inl TypeError
     | Some coords1 \<Rightarrow>
         if coords1 = [] then Inr []
         else (case c2 of
                 None \<Rightarrow> Inl TypeError
               | Some coords2 \<Rightarrow>
                   (let shared = sharedPoints tol coords1 coords2
                    in if length shared \<ge> 2 then Inr (sortBoundaryPoints shared) else Inr shared)))"

subsection \<open>Boundary segments\<close>

record boundary =
  coordinates :: "point list"
  regions :: "string list"
  countries :: "string option list"
  boundary_id :: string
  boundary_type :: string

text \<open>Decimal digits of a number, as a template literal prints \<open>boundaries.length\<close>.\<close>

fun string_of_nat :: "nat \<Rightarrow> string" where
  "string_of_nat n =
    (if n < 10 then [''0123456789'' ! n]
     else string_of_nat (n div 10) @ [''0123456789'' ! (n mod 10)])"

text \<open>A loop whose body may throw: the first exception ends it.\<close>

fun forEachE :: "('a \<Rightarrow> 's \<Rightarrow> error + 's) \<Rightarrow> 'a list \<Rightarrow> 's \<Rightarrow> error + 's" where
  "forEachE f [] s = Inr s"
| "forEachE f (x # xs) s = (case f x s of Inl e \<Rightarrow> Inl e | Inr s' \<Rightarrow> forEachE f xs s')"

text \<open>The pairs \<open>(entries[i], entries[j])\<close> with \<open>i < j\<close>, in the order of the two loops.\<close>

fun entryPairs :: "'a list \<Rightarrow> ('a \<times> 'a) list" where
  "entryPairs [] = []"
| "entryPairs (x # xs) = map (Pair x) xs @ entryPairs xs"

text \<open>
  The body of the innermost loop, the same in both generators but for the type tag: the
  shared boundary of two countries is pushed when it has at least two points.
\<close>

definition pushBoundary ::
  "string \<Rightarrow> string \<Rightarrow> string \<Rightarrow> feature \<Rightarrow> feature \<Rightarrow> boundary list \<Rightarrow> error + boundary list" where
  "pushBoundary tag region1Name region2Name country1 country2 boundaries =
    (case extractCoordinates (geometry country1) of
       Inl e \<Rightarrow> Inl e
     | Inr coords1 \<Rightarrow>
        (case extractCoordinates (geometry country2) of
           Inl e \<Rightarrow> Inl e
         | Inr coords2 \<Rightarrow>
            (case findSharedBoundary coords1 coords2 tolerance of
               Inl e \<Rightarrow> Inl e
             | Inr sharedBoundary \<Rightarrow>
                 if length sharedBoundary \<ge> 2 then
                   Inr (boundaries @
                     [\<lparr>coordinates = sharedBoundary,
                       regions = [region1Name, region2Name],
                       countries = [getCountryCode country1, getCountryCode country2],
                       boundary_id = ''boundary_'' @ region1Name @ ''_'' @ region2Name @ ''_'' @
                         string_of_nat (length boundaries),
                       boundary_type = tag\<rparr>])
                 else Inr boundaries)))"

definition pushRegionPair ::
  "string \<Rightarrow> (string \<times> feature list) \<times> (string \<times> feature list) \<Rightarrow> boundary list \<Rightarrow> error + boundary list" where
  "pushRegionPair tag rr boundaries =
    forEachE (\<lambda>country1. forEachE (pushBoundary tag (fst (fst rr)) (fst (snd rr)) country1) (snd (snd rr)))
      (snd (fst rr)) boundaries"

definition inRegion :: "string list \<Rightarrow> feature \<Rightarrow> bool" where
  "inRegion regionCountries country =
    (case getCountryCode country of None \<Rightarrow> False | Some code \<Rightarrow> code \<in> set regionCountries)"

definition createManualRegionBoundaries :: "feature list \<Rightarrow> error + boundary list" where
  "createManualRegionBoundaries cs =
    forEachE
      (\<lambda>rr. pushRegionPair ''manual_boundary''
         ((fst (fst rr), filter (inRegion (snd (fst rr))) cs),
          (fst (snd rr), filter (inRegion (snd (snd rr))) cs)))
      (entryPairs REGIONS) []"

text \<open>
  The \<open>Map\<close> of \<open>createDataDrivenRegions\<close>, in insertion order: a country is pushed
  onto the list of its key, and a new key is set to the empty list first.
\<close>

fun pushToRegion :: "string \<Rightarrow> feature \<Rightarrow> (string \<times> feature list) list \<Rightarrow> (string \<times> feature list) list" where
  "pushToRegion regionKey country [] = [(regionKey, [country])]"
| "pushToRegion regionKey country (e # es) =
    (if fst e = regionKey then (fst e, snd e @ [country]) # es
     else e # pushToRegion regionKey country es)"

definition createDataDrivenRegions :: "feature list \<Rightarrow> (string \<times> feature list) list" where
  "createDataDrivenRegions cs = fold (\<lambda>country regionMap. pushToRegion (dataDrivenRegionKey country) country regionMap) cs []"

definition createDataDrivenRegionBoundaries :: "feature list \<Rightarrow> error + boundary list" where
  "createDataDrivenRegionBoundaries cs =
    forEachE (pushRegionPair ''data_driven_boundary'') (entryPairs (createDataDrivenRegions cs)) []"

text \<open>
  The effect that recomputes \<open>regionBoundaries\<close>: nothing changes while the feature
  list is empty.
\<close>

definition updateRegionBoundaries :: "bool \<Rightarrow> feature list \<Rightarrow> boundary list \<Rightarrow> error + boundary list" where
  "updateRegionBoundaries useDataDrivenRegions features regionBoundaries =
    (if features \<noteq> [] then
       (let withRegionsOnly = filter hasRegion features
        in if useDataDrivenRegions then createDataDrivenRegionBoundaries withRegionsOnly
           else createManualRegionBoundaries withRegionsOnly)
     else Inr regionBoundaries)"

subsection \<open>The dataset catalog\<close>

text \<open>
  Of a descriptor, the fields that the height code reads. The getters are kept apart:
  a getter reads \<open>feat.properties\<close> only, and may throw or return \<open>NaN\<close>.
\<close>

record dataset =
  category :: string
  unit :: string
  disabled :: bool

datatype jsnum = NaN | Num real

datatype getterResult = Throws | Returns jsnum

type_synonym getter = "properties \<Rightarrow> getterResult"

text \<open>
  An object literal that names a key twice keeps the later value at the place of the
  first. \<open>AVAILABLE_DATASETS_literal\<close> lists the entries as the source writes them.
\<close>

fun setKey :: "'k \<Rightarrow> 'v \<Rightarrow> ('k \<times> 'v) list \<Rightarrow> ('k \<times> 'v) list" where
  "setKey k v [] = [(k, v)]"
| "setKey k v (e # es) = (if fst e = k then (k, v) # es else e # setKey k v es)"

definition objectLiteral :: "('k \<times> 'v) list \<Rightarrow> ('k \<times> 'v) list" where
  "objectLiteral entries = fold (\<lambda>e obj. setKey (fst e) (snd e) obj) entries []"

definition AVAILABLE_DATASETS_literal :: "(string \<times> dataset) list" where
  "AVAILABLE_DATASETS_literal =
   [
    (''gdp'', \<lparr>category = ''Built-in'', unit = ''B$'', disabled = False\<rparr>),
    (''population'', \<lparr>category = ''Built-in'', unit = ''M'', disabled = False\<rparr>),
    (''area'', \<lparr>category = ''Built-in'', unit = ''K km'' @ [CHR 0xB2], disabled = False\<rparr>),
    (''neighbors'', \<lparr>category = ''Built-in'', unit = '''', disabled = False\<rparr>),
    (''forest_area'', \<lparr>category = ''World Bank'', unit = ''%'', disabled = False\<rparr>),
    (''co2_emissions'', \<lparr>category = ''World Bank'', unit = ''t/capita'', disabled = True\<rparr>),
    (''urban_population'', \<lparr>category = ''World Bank'', unit = ''%'', disabled = False\<rparr>),
    (''internet_users'', \<lparr>category = ''World Bank'', unit = ''%'', disabled = False\<rparr>),
    (''education_expenditure'', \<lparr>category = ''World Bank'', unit = ''% GDP'', disabled = True\<rparr>),
    (''renewable_electricity'', \<lparr>category = ''World Bank'', unit = ''%'', disabled = True\<rparr>),
    (''life_expectancy'', \<lparr>category = ''World Bank'', unit = ''years'', disabled = True\<rparr>),
    (''gdp_growth'', \<lparr>category = ''World Bank'', unit = ''%'', disabled = True\<rparr>),
    (''unemployment'', \<lparr>category = ''World Bank'', unit = ''%'', disabled = True\<rparr>),
    (''exports_gdp'', \<lparr>category = ''World Bank'', unit = ''% GDP'', disabled = True\<rparr>),
    (''military_expenditure'', \<lparr>category = ''World Bank'', unit = ''% GDP'', disabled = False\<rparr>),
    (''population_density'', \<lparr>category = ''Calculated'', unit = ''people/km'' @ [CHR 0xB2], disabled = False\<rparr>),
    (''gdp_per_capita'', \<lparr>category = ''Calculated'', unit = ''USD'', disabled = False\<rparr>),
    (''economic_complexity'', \<lparr>category = ''Economic'', unit = ''index'', disabled = False\<rparr>),
    (''digital_competitiveness'', \<lparr>category = ''Technology'', unit = ''score'', disabled = False\<rparr>),
    (''energy_security'', \<lparr>category = ''Energy'', unit = ''index'', disabled = False\<rparr>),
    (''corruption_index'', \<lparr>category = ''Governance'', unit = ''score'', disabled = False\<rparr>),
    (''innovation_index'', \<lparr>category = ''Innovation'', unit = ''score'', disabled = False\<rparr>),
    (''life_expectancy'', \<lparr>category = ''Our World in Data'', unit = ''years'', disabled = False\<rparr>),
    (''internet_usage'', \<lparr>category = ''Our World in Data'', unit = ''%'', disabled = False\<rparr>),
    (''coffee_production'', \<lparr>category = ''FAOSTAT'', unit = ''tonnes'', disabled = False\<rparr>),
    (''crop_yield'', \<lparr>category = ''FAOSTAT'', unit = ''index'', disabled = False\<rparr>),
    (''road_density'', \<lparr>category = ''World Bank'', unit = ''km/100km'' @ [CHR 0xB2], disabled = False\<rparr>),
    (''urbanization'', \<lparr>category = ''World Bank'', unit = ''%'', disabled = False\<rparr>),
    (''industrial_production'', \<lparr>category = ''UN Data'', unit = ''index'', disabled = False\<rparr>),
    (''tourism_arrivals'', \<lparr>category = ''UN Data'', unit = ''M'', disabled = False\<rparr>),
    (''oil_production'', \<lparr>category = ''Energy Institute'', unit = ''bbl/day'', disabled = False\<rparr>),
    (''energy_consumption'', \<lparr>category = ''Energy Institute'', unit = ''TWh'', disabled = False\<rparr>),
    (''gold_production'', \<lparr>category = ''USGS Minerals'', unit = ''tonnes'', disabled = False\<rparr>),
    (''copper_reserves'', \<lparr>category = ''USGS Minerals'', unit = ''Mt'', disabled = False\<rparr>),
    (''road_density'', \<lparr>category = ''World Bank'', unit = ''km/100km'' @ [CHR 0xB2], disabled = False\<rparr>),
    (''urbanization'', \<lparr>category = ''World Bank'', unit = ''%'', disabled = False\<rparr>),
    (''gdp_per_capita'', \<lparr>category = ''World Bank'', unit = ''USD'', disabled = False\<rparr>),
    (''population_density'', \<lparr>category = ''World Bank'', unit = ''/km'' @ [CHR 0xB2], disabled = False\<rparr>),
    (''military_expenditure'', \<lparr>category = ''World Bank'', unit = ''% GDP'', disabled = False\<rparr>),
    (''healthcare_expenditure'', \<lparr>category = ''World Bank'', unit = ''% GDP'', disabled = False\<rparr>)
   ]"

definition AVAILABLE_DATASETS :: "(string \<times> dataset) list" where
  "AVAILABLE_DATASETS = objectLiteral AVAILABLE_DATASETS_literal"

text \<open>
  The getters of \<open>gdp\<close> and \<open>population\<close>, \<open>a || b || 0\<close> over numeric properties
  (zero is falsy). The other getters read data tables and the fetch cache; they are the
  parameter \<open>ext\<close>, by key.
\<close>

definition num_or :: "real option \<Rightarrow> real \<Rightarrow> real" where
  "num_or a d = (case a of None \<Rightarrow> d | Some x \<Rightarrow> if x = 0 then d else x)"

definition gdpGetter :: getter where
  "gdpGetter p = Returns (Num (num_or (GDP_MD_EST p) (num_or (GDP_MD p) 0)))"

definition populationGetter :: getter where
  "populationGetter p = Returns (Num (num_or (POP_EST p) (num_or (POP2005 p) 0)))"

definition datasetGetter :: "(string \<Rightarrow> getter) \<Rightarrow> string \<Rightarrow> getter" where
  "datasetGetter ext key =
    (if key = ''gdp'' then gdpGetter
     else if key = ''population'' then populationGetter
     else ext key)"

text \<open>The wrapper that \<open>HEIGHT_GETTERS\<close> puts around every getter: \<open>try\<close>/\<open>catch\<close>.\<close>

definition wrapGetter :: "getter \<Rightarrow> 'a feature_scheme \<Rightarrow> real" where
  "wrapGetter g feat =
    (case g (properties feat) of
       Throws \<Rightarrow> 0
     | Returns v \<Rightarrow> (case v of NaN \<Rightarrow> 0 | Num x \<Rightarrow> if x < 0 then 0 else x))"

definition HEIGHT_GETTERS :: "(string \<Rightarrow> getter) \<Rightarrow> (string \<times> ('a feature_scheme \<Rightarrow> real)) list" where
  "HEIGHT_GETTERS ext =
    map (\<lambda>e. (fst e, wrapGetter (datasetGetter ext (fst e))))
      (filter (\<lambda>e. \<not> disabled (snd e)) AVAILABLE_DATASETS)"

subsection \<open>Dataset selection\<close>

record appState =
  selectedDatasets :: "string list"
  heightFilter :: string

definition initialState :: appState where
  "initialState =
    \<lparr>selectedDatasets =
       [''gdp'', ''population'', ''area'', ''neighbors'',
        ''forest_area'', ''internet_users'', ''urban_population'', ''military_expenditure''],
     heightFilter = ''none''\<rparr>"

text \<open>\<open>dataset?.disabled\<close> for \<open>dataset = AVAILABLE_DATASETS[datasetId]\<close>.\<close>

definition datasetDisabled :: "string \<Rightarrow> bool" where
  "datasetDisabled datasetId =
    (case map_of AVAILABLE_DATASETS datasetId of None \<Rightarrow> False | Some d \<Rightarrow> disabled d)"

definition handleDatasetSelect :: "string \<Rightarrow> appState \<Rightarrow> appState" where
  "handleDatasetSelect datasetId s =
    (if datasetDisabled datasetId then s
     else if datasetId \<in> set (selectedDatasets s)
       then s\<lparr>selectedDatasets := filter (\<lambda>i. i \<noteq> datasetId) (selectedDatasets s)\<rparr>
       else s\<lparr>selectedDatasets := selectedDatasets s @ [datasetId]\<rparr>)"

definition handleDatasetDeselect :: "string \<Rightarrow> appState \<Rightarrow> appState" where
  "handleDatasetDeselect datasetId s =
    s\<lparr>selectedDatasets := filter (\<lambda>i. i \<noteq> datasetId) (selectedDatasets s)\<rparr>"

text \<open>The keys of \<open>heightFilterButtons\<close>, and the click handler of a button.\<close>

definition heightFilterButtons :: "appState \<Rightarrow> string list" where
  "heightFilterButtons s = selectedDatasets s"

definition clickHeightFilter :: "string \<Rightarrow> appState \<Rightarrow> appState" where
  "clickHeightFilter key s = s\<lparr>heightFilter := (if heightFilter s = key then ''none'' else key)\<rparr>"

inductive reachable :: "appState \<Rightarrow> bool" where
  init: "reachable initialState"
| select: "reachable s \<Longrightarrow> reachable (handleDatasetSelect datasetId s)"
| deselect: "reachable s \<Longrightarrow> reachable (handleDatasetDeselect datasetId s)"
| click: "reachable s \<Longrightarrow> key \<in> set (heightFilterButtons s) \<Longrightarrow> reachable (clickHeightFilter key s)"

subsection \<open>Height statistics\<close>

record stats =
  max_st :: real
  min_st :: real
  mean :: real
  median :: real
  values_st :: "real list"
  adjustedMax :: real
  outliers :: "real list"

definition defaultStats :: stats where
  "defaultStats =
    \<lparr>max_st = 1, min_st = 0, mean = 0.5, median = 0.5, values_st = [], adjustedMax = 1, outliers = []\<rparr>"

text \<open>\<open>Math.max(...values)\<close> and \<open>Math.min(...values)\<close> of a non-empty array.\<close>

fun Math_max :: "real list \<Rightarrow> real" where
  "Math_max (v # vs) = fold max vs v"

fun Math_min :: "real list \<Rightarrow> real" where
  "Math_min (v # vs) = fold min vs v"

text \<open>\<open>values[Math.floor(values.length * p)]\<close>.\<close>

definition atFraction :: "real list \<Rightarrow> real \<Rightarrow> real" where
  "atFraction vs p = vs ! nat \<lfloor>real (length vs) * p\<rfloor>"

definition meanOf :: "real list \<Rightarrow> real" where
  "meanOf vs = fold (\<lambda>val sum. sum + val) vs 0 / real (length vs)"

definition medianOf :: "real list \<Rightarrow> real" where
  "medianOf vs =
    (if length vs mod 2 = 0
     then (vs ! (nat \<lfloor>real (length vs) / 2\<rfloor> - 1) + vs ! nat \<lfloor>real (length vs) / 2\<rfloor>) / 2
     else vs ! nat \<lfloor>real (length vs) / 2\<rfloor>)"

definition outlierThreshold :: "real list \<Rightarrow> real" where
  "outlierThreshold vs =
    (let q1 = atFraction vs 0.25;
         q3 = atFraction vs 0.75;
         iqr = q3 - q1
     in q3 + (iqr * 2.5))"

definition isExtremeCrusher :: "real list \<Rightarrow> bool" where
  "isExtremeCrusher vs =
    (let p95 = atFraction vs 0.95;
         maxToP95Ratio = Math_max vs / max p95 1;
         maxToMeanRatio = Math_max vs / max (meanOf vs) 1;
         maxToMedianRatio = Math_max vs / max (medianOf vs) 1
     in maxToP95Ratio > 3.0 \<or> maxToMeanRatio > 8.0 \<or> maxToMedianRatio > 10.0 \<or>
        Math_max vs > outlierThreshold vs)"

definition findOutliers :: "real list \<Rightarrow> real list" where
  "findOutliers vs =
    filter (\<lambda>v. v > outlierThreshold vs \<or> v / max (atFraction vs 0.95) 1 > 2.5 \<or>
                 v / max (meanOf vs) 1 > 6.0) vs"

definition dampenedMax :: "real list \<Rightarrow> real" where
  "dampenedMax vs =
    (let option1 = atFraction vs 0.95 * 1.5;
         option2 = meanOf vs * 3.0;
         option3 = medianOf vs * 4.0;
         adjusted = max (max option1 option2) option3;
         adjusted = max adjusted (Math_max vs * 0.3)
     in min adjusted (Math_max vs * 0.8))"

text \<open>The statistics of a non-empty array of sorted positive values.\<close>

definition statsOf :: "real list \<Rightarrow> stats" where
  "statsOf vs =
    \<lparr>max_st = Math_max vs, min_st = Math_min vs, mean = meanOf vs, median = medianOf vs,
     values_st = vs,
     adjustedMax = (if isExtremeCrusher vs then dampenedMax vs else Math_max vs),
     outliers = (if isExtremeCrusher vs then findOutliers vs else [])\<rparr>"

text \<open>
  The memoised \<open>heightStats\<close>. A height filter with no entry in \<open>HEIGHT_GETTERS\<close>
  makes \<open>features.map(undefined)\<close> throw.
\<close>

definition positiveValues :: "('a feature_scheme \<Rightarrow> real) \<Rightarrow> 'a feature_scheme list \<Rightarrow> real list" where
  "positiveValues heightGetter features = sort (filter (\<lambda>v. v > 0) (map heightGetter features))"

definition heightStats :: "(string \<Rightarrow> getter) \<Rightarrow> 'a feature_scheme list \<Rightarrow> string \<Rightarrow> error + stats" where
  "heightStats ext features filterKey =
    (if features = [] \<or> filterKey = ''none'' then Inr defaultStats
     else (case map_of (HEIGHT_GETTERS ext) filterKey of
             None \<Rightarrow> Inl TypeError
           | Some heightGetter \<Rightarrow>
               (let vs = positiveValues heightGetter features
                in if vs = [] then Inr defaultStats else Inr (statsOf vs))))"

subsection \<open>Polygon height\<close>

text \<open>
  A height is a finite number or \<open>None\<close>, which stands for \<open>NaN\<close> and the two
  infinities: once a value of the formula is not finite, no later step makes it finite,
  except \<open>Math.min(1.0, Infinity)\<close>, which is written out.
\<close>

definition normalizedValue :: "stats \<Rightarrow> real \<Rightarrow> real option" where
  "normalizedValue st v =
    (let workingMax = adjustedMax st;
         range = workingMax - min_st st
     in if v \<in> set (outliers st) \<and> v > workingMax then
          (if max_st st - workingMax = 0 then None
           else Some (1.0 + ((v - workingMax) / (max_st st - workingMax)) * 0.8))
        else if range = 0 then (if v - min_st st > 0 then Some 1.0 else None)
        else Some (min 1.0 ((v - min_st st) / range)))"

text \<open>
  \<open>Math.pow\<close> on finite arguments: a negative base with a fractional exponent gives
  \<open>NaN\<close>, zero to a negative power gives \<open>Infinity\<close>.
\<close>

definition Math_pow :: "real \<Rightarrow> real \<Rightarrow> real option" where
  "Math_pow x y =
    (if y = 0 then Some 1
     else if x > 0 then Some (x powr y)
     else if x = 0 then (if y > 0 then Some 0 else None)
     else if y = of_int \<lfloor>y\<rfloor> then Some (x powi \<lfloor>y\<rfloor>)
     else None)"

definition isBuiltIn :: "string \<Rightarrow> bool" where
  "isBuiltIn filterKey = (filterKey \<in> set [''gdp'', ''population'', ''area'', ''neighbors''])"

text \<open>
  The adaptive exponent of a dataset that is not built in. With no values the standard
  deviation is \<open>0/0\<close> and the exponent is \<open>NaN\<close>.
\<close>

definition stdDevOf :: "stats \<Rightarrow> real" where
  "stdDevOf st =
    sqrt (fold (\<lambda>val sum. sum + (val - mean st)\<^sup>2) (values_st st) 0 / real (length (values_st st)))"

definition baseExponent :: "real \<Rightarrow> real" where
  "baseExponent coefficientOfVariation =
    (if coefficientOfVariation < 0.4 then 2.0 + (0.4 - coefficientOfVariation) * 2.5
     else if coefficientOfVariation > 1.2 then max 0.4 (1.0 - (coefficientOfVariation - 1.2) * 0.3)
     else 1.0 + (0.8 - \<bar>coefficientOfVariation - 0.8\<bar>) * 1.5)"

definition boundExponent :: "real \<Rightarrow> real" where
  "boundExponent exponent =
    (if exponent > 1.0 then max 1.1 (min 3.5 exponent) else max 0.3 (min 0.95 exponent))"

definition adaptiveExponent :: "stats \<Rightarrow> real option" where
  "adaptiveExponent st =
    (if values_st st = [] then None
     else
      (let sortedValues = sort (values_st st);
           coefficientOfVariation = stdDevOf st / max (mean st) 0.001;
           p90 = atFraction sortedValues 0.90;
           p95 = atFraction sortedValues 0.95;
           p99 = atFraction sortedValues 0.99;
           maxToP95Ratio = max_st st / max p95 0.001;
           maxToP90Ratio = max_st st / max p90 0.001;
           p99ToP90Ratio = p99 / max p90 0.001;
           topCompression = (max_st st - p95) / max (max_st st - min_st st) 0.001;
           exponent = baseExponent coefficientOfVariation;
           exponent = (if maxToP95Ratio > 3.0
                       then exponent * (1.0 - min 1.0 ((maxToP95Ratio - 3.0) / 7.0) * 0.6)
                       else exponent);
           exponent = (if topCompression > 0.3
                       then exponent * (1.0 - min 1.0 ((topCompression - 0.3) / 0.4) * 0.4)
                       else exponent);
           exponent = (if p99ToP90Ratio > 2.0 then exponent * 0.8 else exponent);
           exponent = (if maxToP90Ratio > 5.0 then min exponent 0.6 else exponent)
       in Some (boundExponent exponent)))"

definition smooth :: "real \<Rightarrow> real \<Rightarrow> real" where
  "smooth exponent normalized =
    (if exponent > 1.0 \<and> normalized > 0.9 then 0.9 + (((normalized - 0.9) / 0.1) * 0.1 * 0.85)
     else if exponent < 1.0 \<and> normalized < 0.1 then (normalized / 0.1) * 0.15
     else normalized)"

definition scaleNormalized :: "string \<Rightarrow> stats \<Rightarrow> real option \<Rightarrow> real option" where
  "scaleNormalized filterKey st normalized =
    (case normalized of
       None \<Rightarrow> None
     | Some n \<Rightarrow>
        if isBuiltIn filterKey then
          (if filterKey = ''gdp'' then Some n
           else if filterKey = ''area'' then Math_pow n 0.7
           else if filterKey = ''population'' then Math_pow n 0.6
           else Some n)
        else
          (case adaptiveExponent st of
             None \<Rightarrow> None
           | Some exponent \<Rightarrow>
               (case Math_pow n exponent of
                  None \<Rightarrow> None
                | Some m \<Rightarrow> Some (smooth exponent m))))"

definition heightMultiplier :: "string \<Rightarrow> real" where
  "heightMultiplier filterKey =
    (let ds = map_of AVAILABLE_DATASETS filterKey
     in if isBuiltIn filterKey then 0.3
        else if map_option unit ds = Some ''%'' then 0.25
        else if map_option category ds = Some ''USGS Minerals'' \<or>
                map_option category ds = Some ''Energy Institute'' then 0.28
        else 0.25)"

definition baseHeight :: real where
  "baseHeight = 0.005"

text \<open>\<open>calculatedHeight\<close>: the height before the hover effects are added.\<close>

definition calculatedHeight ::
  "(string \<Rightarrow> getter) \<Rightarrow> string \<Rightarrow> stats \<Rightarrow> 'a feature_scheme \<Rightarrow> error + real option" where
  "calculatedHeight ext filterKey st country =
    (if filterKey \<noteq> ''none'' then
       (case map_of (HEIGHT_GETTERS ext) filterKey of
          None \<Rightarrow> Inl TypeError
        | Some heightGetter \<Rightarrow>
            (let v = heightGetter country;
                 isOutlier = (v \<in> set (outliers st))
             in if v > 0 \<and> max_st st > min_st st then
                  (case scaleNormalized filterKey st (normalizedValue st v) of
                     None \<Rightarrow> Inr None
                   | Some normalized \<Rightarrow>
                       if isOutlier \<and> normalized > 1.0 then
                         Inr (Some (baseHeight + (heightMultiplier filterKey * 1.0) +
                                    ((normalized - 1.0) * heightMultiplier filterKey * 0.8)))
                       else Inr (Some (normalized * heightMultiplier filterKey + baseHeight)))
                else Inr (Some baseHeight)))
     else Inr (Some baseHeight))"

definition getPolygonHeight ::
  "(string \<Rightarrow> getter) \<Rightarrow> bool \<Rightarrow> polygon option \<Rightarrow> string \<Rightarrow> stats \<Rightarrow> polygon \<Rightarrow> error + real option" where
  "getPolygonHeight ext useDataDrivenRegions hoverD filterKey st country =
    (if layer country = Surface then Inr (Some 0.00)
     else
      (let hoveredRegion = map_option (getCountryRegion useDataDrivenRegions) hoverD;
           countryRegion = getCountryRegion useDataDrivenRegions country
       in case calculatedHeight ext filterKey st country of
            Inl e \<Rightarrow> Inl e
          | Inr h \<Rightarrow>
              if truthy hoveredRegion \<and> Some countryRegion = hoveredRegion then
                (if Some country = hoverD then Inr (map_option (\<lambda>x. x + 0.05) h)
                 else Inr (map_option (\<lambda>x. x + 0.02) h))
              else if Some country = hoverD then Inr (map_option (\<lambda>x. x + 0.01) h)
              else Inr h))"

subsection \<open>The wording of the specification, for comparison\<close>


definition spec_percentile :: "real list \<Rightarrow> nat \<Rightarrow> real" where
  "spec_percentile vs k = vs ! (k * length vs div 100)"

definition spec_mean :: "real list \<Rightarrow> real" where
  "spec_mean vs = sum_list vs / real (length vs)"

definition spec_median :: "real list \<Rightarrow> real" where
  "spec_median vs =
    (if even (length vs) then (vs ! (length vs div 2 - 1) + vs ! (length vs div 2)) / 2
     else vs ! (length vs div 2))"


definition guarded_crusher :: "real list \<Rightarrow> bool" where
  "guarded_crusher vs =
    (Max (set vs) / max (spec_percentile vs 95) 1 > 3 \<or> Max (set vs) / max (spec_mean vs) 1 > 8 \<or>
     Max (set vs) / max (spec_median vs) 1 > 10 \<or>
     Max (set vs) > spec_percentile vs 75 + 2.5 * (spec_percentile vs 75 - spec_percentile vs 25))"


subsection \<open>Example inputs\<close>

text \<open>A feature with the given \<open>GDP_MD_EST\<close>, for the worked examples.\<close>

definition sampleFeature :: "real \<Rightarrow> feature" where
  "sampleFeature gdp =
    \<lparr>properties = \<lparr>ISO_A2 = Some ''FR'', ADMIN = Some ''France'', NAME = Some ''France'',
       CONTINENT = Some ''Europe'', SUBREGION = Some ''Western Europe'', REGION_UN = Some ''Europe'',
       GDP_MD_EST = Some gdp, GDP_MD = None, POP_EST = None, POP2005 = None\<rparr>,
     geometry = OtherGeometry\<rparr>"

text \<open>A feature of South-Eastern Asia.\<close>

definition indonesia :: feature where
  "indonesia =
    \<lparr>properties = \<lparr>ISO_A2 = Some ''ID'', ADMIN = Some ''Indonesia'', NAME = Some ''Indonesia'',
       CONTINENT = Some ''Asia'', SUBREGION = Some ''South-Eastern Asia'', REGION_UN = Some ''Asia'',
       GDP_MD_EST = None, GDP_MD = None, POP_EST = None, POP2005 = None\<rparr>,
     geometry = OtherGeometry\<rparr>"

subsection \<open>Where a segment comes from\<close>

text \<open>
  A segment is well formed when it names two distinct regions and has at least two
  points. It is emitted from a feature list when it carries the codes of two of the
  features, whose rings share at least two points, chained by \<open>sortBoundaryPoints\<close>.
\<close>

definition wellFormedSegment :: "boundary \<Rightarrow> bool" where
  "wellFormedSegment b =
    (length (regions b) = 2 \<and> distinct (regions b) \<and> 2 \<le> length (coordinates b))"

definition emittedFrom :: "feature list \<Rightarrow> boundary \<Rightarrow> bool" where
  "emittedFrom cs b =
    (\<exists>c1 c2 ring1 ring2.
       c1 \<in> set cs \<and> c2 \<in> set cs \<and>
       countries b = [getCountryCode c1, getCountryCode c2] \<and>
       extractCoordinates (geometry c1) = Inr (Some ring1) \<and>
       extractCoordinates (geometry c2) = Inr (Some ring2) \<and>
       2 \<le> length (sharedPoints tolerance ring1 ring2) \<and>
       coordinates b = sortBoundaryPoints (sharedPoints tolerance ring1 ring2))"


text \<open>A European country with one outer ring, for the worked examples.\<close>

definition exampleCountry :: "string \<Rightarrow> string \<Rightarrow> ring \<Rightarrow> feature" where
  "exampleCountry code subregion outer =
    \<lparr>properties = \<lparr>ISO_A2 = Some code, ADMIN = None, NAME = None,
       CONTINENT = Some ''Europe'', SUBREGION = Some subregion, REGION_UN = Some ''Europe'',
       GDP_MD_EST = None, GDP_MD = None, POP_EST = None, POP2005 = None\<rparr>,
     geometry = Polygon [outer]\<rparr>"

section \<open>Properties\<close>

subsection \<open>The catalog and the wrapped getters\<close>

lemma AVAILABLE_DATASETS_eq: "AVAILABLE_DATASETS = [
    (''gdp'', \<lparr>category = ''Built-in'', unit = ''B$'', disabled = False\<rparr>),
    (''population'', \<lparr>category = ''Built-in'', unit = ''M'', disabled = False\<rparr>),
    (''area'', \<lparr>category = ''Built-in'', unit = ''K km'' @ [CHR 0xB2], disabled = False\<rparr>),
    (''neighbors'', \<lparr>category = ''Built-in'', unit = '''', disabled = False\<rparr>),
    (''forest_area'', \<lparr>category = ''World Bank'', unit = ''%'', disabled = False\<rparr>),
    (''co2_emissions'', \<lparr>category = ''World Bank'', unit = ''t/capita'', disabled = True\<rparr>),
    (''urban_population'', \<lparr>category = ''World Bank'', unit = ''%'', disabled = False\<rparr>),
    (''internet_users'', \<lparr>category = ''World Bank'', unit = ''%'', disabled = False\<rparr>),
    (''education_expenditure'', \<lparr>category = ''World Bank'', unit = ''% GDP'', disabled = True\<rparr>),
    (''renewable_electricity'', \<lparr>category = ''World Bank'', unit = ''%'', disabled = True\<rparr>),
    (''life_expectancy'', \<lparr>category = ''Our World in Data'', unit = ''years'', disabled = False\<rparr>),
    (''gdp_growth'', \<lparr>category = ''World Bank'', unit = ''%'', disabled = True\<rparr>),
    (''unemployment'', \<lparr>category = ''World Bank'', unit = ''%'', disabled = True\<rparr>),
    (''exports_gdp'', \<lparr>category = ''World Bank'', unit = ''% GDP'', disabled = True\<rparr>),
    (''military_expenditure'', \<lparr>category = ''World Bank'', unit = ''% GDP'', disabled = False\<rparr>),
    (''population_density'', \<lparr>category = ''World Bank'', unit = ''/km'' @ [CHR 0xB2], disabled = False\<rparr>),
    (''gdp_per_capita'', \<lparr>category = ''World Bank'', unit = ''USD'', disabled = False\<rparr>),
    (''economic_complexity'', \<lparr>category = ''Economic'', unit = ''index'', disabled = False\<rparr>),
    (''digital_competitiveness'', \<lparr>category = ''Technology'', unit = ''score'', disabled = False\<rparr>),
    (''energy_security'', \<lparr>category = ''Energy'', unit = ''index'', disabled = False\<rparr>),
    (''corruption_index'', \<lparr>category = ''Governance'', unit = ''score'', disabled = False\<rparr>),
    (''innovation_index'', \<lparr>category = ''Innovation'', unit = ''score'', disabled = False\<rparr>),
    (''internet_usage'', \<lparr>category = ''Our World in Data'', unit = ''%'', disabled = False\<rparr>),
    (''coffee_production'', \<lparr>category = ''FAOSTAT'', unit = ''tonnes'', disabled = False\<rparr>),
    (''crop_yield'', \<lparr>category = ''FAOSTAT'', unit = ''index'', disabled = False\<rparr>),
    (''road_density'', \<lparr>category = ''World Bank'', unit = ''km/100km'' @ [CHR 0xB2], disabled = False\<rparr>),
    (''urbanization'', \<lparr>category = ''World Bank'', unit = ''%'', disabled = False\<rparr>),
    (''industrial_production'', \<lparr>category = ''UN Data'', unit = ''index'', disabled = False\<rparr>),
    (''tourism_arrivals'', \<lparr>category = ''UN Data'', unit = ''M'', disabled = False\<rparr>),
    (''oil_production'', \<lparr>category = ''Energy Institute'', unit = ''bbl/day'', disabled = False\<rparr>),
    (''energy_consumption'', \<lparr>category = ''Energy Institute'', unit = ''TWh'', disabled = False\<rparr>),
    (''gold_production'', \<lparr>category = ''USGS Minerals'', unit = ''tonnes'', disabled = False\<rparr>),
    (''copper_reserves'', \<lparr>category = ''USGS Minerals'', unit = ''Mt'', disabled = False\<rparr>),
    (''healthcare_expenditure'', \<lparr>category = ''World Bank'', unit = ''% GDP'', disabled = False\<rparr>)
  ]"
  unfolding AVAILABLE_DATASETS_def AVAILABLE_DATASETS_literal_def objectLiteral_def
  by code_simp

lemma setKey_keys: "set (map fst (setKey k v xs)) = insert k (set (map fst xs))"
  by (induction xs) auto

lemma distinct_setKey: "distinct (map fst xs) \<Longrightarrow> distinct (map fst (setKey k v xs))"
proof (induction xs)
  case Nil
  then show ?case by simp
next
  case (Cons e es)
  then show ?case
    using setKey_keys [of k v es] by (auto simp: image_iff)
qed

lemma distinct_fold_setKey:
  "distinct (map fst acc) \<Longrightarrow> distinct (map fst (fold (\<lambda>e obj. setKey (fst e) (snd e) obj) xs acc))"
  by (induction xs arbitrary: acc) (simp_all add: distinct_setKey)

lemma distinct_AVAILABLE_DATASETS: "distinct (map fst AVAILABLE_DATASETS)"
  by (simp add: AVAILABLE_DATASETS_def objectLiteral_def distinct_fold_setKey)

lemma map_of_wrapped:
  "map_of (map (\<lambda>e. (fst e, f (fst e))) (filter P xs)) k = Some g \<Longrightarrow>
   g = f k \<and> (\<exists>e \<in> set xs. fst e = k \<and> P e)"
  by (induction xs) (auto split: if_splits)

lemma HEIGHT_GETTERS_Some:
  assumes "map_of (HEIGHT_GETTERS ext) key = Some g"
  shows "g = wrapGetter (datasetGetter ext key) \<and> \<not> datasetDisabled key"
proof -
  from map_of_wrapped [OF assms [unfolded HEIGHT_GETTERS_def]]
  obtain e where g: "g = wrapGetter (datasetGetter ext key)"
    and e: "e \<in> set AVAILABLE_DATASETS" "fst e = key" "\<not> disabled (snd e)"
    by blast
  from e(1) have "(fst e, snd e) \<in> set AVAILABLE_DATASETS" by simp
  with distinct_AVAILABLE_DATASETS have "map_of AVAILABLE_DATASETS (fst e) = Some (snd e)"
    by (simp only: map_of_eq_Some_iff)
  with e g show ?thesis by (simp add: datasetDisabled_def)
qed

lemma HEIGHT_GETTERS_disabled:
  assumes "datasetDisabled key"
  shows "map_of (HEIGHT_GETTERS ext :: (string \<times> ('a feature_scheme \<Rightarrow> real)) list) key = None"
proof (rule ccontr)
  assume "\<not> ?thesis"
  then obtain g :: "'a feature_scheme \<Rightarrow> real" where "map_of (HEIGHT_GETTERS ext) key = Some g"
    by auto
  from HEIGHT_GETTERS_Some [OF this] assms show False by simp
qed

lemma HEIGHT_GETTERS_none: "map_of (HEIGHT_GETTERS ext) ''none'' = None"
  by (simp add: HEIGHT_GETTERS_def AVAILABLE_DATASETS_eq)

lemma initial_enabled:
  "\<not> datasetDisabled ''gdp''" "\<not> datasetDisabled ''population''" "\<not> datasetDisabled ''area''"
  "\<not> datasetDisabled ''neighbors''" "\<not> datasetDisabled ''forest_area''"
  "\<not> datasetDisabled ''internet_users''" "\<not> datasetDisabled ''urban_population''"
  "\<not> datasetDisabled ''military_expenditure''" "\<not> datasetDisabled ''none''"
  by (simp_all add: datasetDisabled_def AVAILABLE_DATASETS_eq)

text \<open>
  The catalog names \<open>life_expectancy\<close> twice; the later descriptor, which is not
  disabled, is the one the object keeps. Six keys are disabled.
\<close>

lemma disabled_keys:
  "map fst (filter (\<lambda>e. disabled (snd e)) AVAILABLE_DATASETS) =
    [''co2_emissions'', ''education_expenditure'', ''renewable_electricity'',
     ''gdp_growth'', ''unemployment'', ''exports_gdp'']"
  by (simp add: AVAILABLE_DATASETS_eq)

lemma reachable_enabled:
  "reachable s \<Longrightarrow> (\<forall>k \<in> set (selectedDatasets s). \<not> datasetDisabled k) \<and> \<not> datasetDisabled (heightFilter s)"
proof (induction rule: reachable.induct)
  case init
  show ?case by (simp add: initialState_def initial_enabled)
next
  case (select s datasetId)
  then show ?case by (auto simp: handleDatasetSelect_def)
next
  case (deselect s datasetId)
  then show ?case by (auto simp: handleDatasetDeselect_def)
next
  case (click s key)
  then show ?case by (auto simp: clickHeightFilter_def heightFilterButtons_def initial_enabled)
qed


subsection \<open>Disabled datasets\<close>

text \<open>
  Claim C8. A dataset descriptor marked disabled is never among the selectable height
  sources: in every state reached from the initial selection by selecting, deselecting
  and clicking height buttons, a disabled key is neither a height button nor the active
  height filter. \<open>HEIGHT_GETTERS\<close> has no entry for it, so no statistics are ever
  computed from its values: \<open>heightStats\<close> throws for it on a non-empty feature list and
  returns the default statistics on an empty one.
\<close>

theorem C8_disabled_dataset_excluded:
  assumes "reachable s" and "datasetDisabled key"
  shows "key \<notin> set (heightFilterButtons s) \<and> heightFilter s \<noteq> key \<and>
         map_of (HEIGHT_GETTERS ext) key = None \<and>
         heightStats ext features key = (if features = [] then Inr defaultStats else Inl TypeError)"
proof -
  from reachable_enabled [OF assms(1)] assms(2)
  have "key \<notin> set (heightFilterButtons s)" and "heightFilter s \<noteq> key"
    by (auto simp: heightFilterButtons_def)
  moreover have none: "map_of (HEIGHT_GETTERS ext) key = None"
    by (rule HEIGHT_GETTERS_disabled [OF assms(2)])
  moreover have "key \<noteq> ''none''"
    using assms(2) initial_enabled(9) by auto
  then have "heightStats ext features key = (if features = [] then Inr defaultStats else Inl TypeError)"
    by (simp add: heightStats_def none)
  ultimately show ?thesis by simp
qed

theorem C8_disabled_dataset_excluded_witness:
  "reachable (clickHeightFilter ''gdp'' (handleDatasetSelect ''co2_emissions'' initialState)) \<and>
   datasetDisabled ''co2_emissions'' \<and>
   ''co2_emissions'' \<notin> set (heightFilterButtons (clickHeightFilter ''gdp'' (handleDatasetSelect ''co2_emissions'' initialState))) \<and>
   heightFilter (clickHeightFilter ''gdp'' (handleDatasetSelect ''co2_emissions'' initialState)) \<noteq> ''co2_emissions'' \<and>
   map_of (HEIGHT_GETTERS (\<lambda>k p. Returns (Num 1))) ''co2_emissions'' = None \<and>
   heightStats (\<lambda>k p. Returns (Num 1)) [\<lparr>properties = \<lparr>ISO_A2 = Some ''FR'', ADMIN = None, NAME = None,
       CONTINENT = None, SUBREGION = None, REGION_UN = None, GDP_MD_EST = None, GDP_MD = None,
       POP_EST = None, POP2005 = None\<rparr>, geometry = OtherGeometry\<rparr>] ''co2_emissions'' = Inl TypeError"
proof -
  have d: "datasetDisabled ''co2_emissions''"
    by (simp add: datasetDisabled_def AVAILABLE_DATASETS_eq)
  have "''gdp'' \<in> set (heightFilterButtons (handleDatasetSelect ''co2_emissions'' initialState))"
    by (simp add: heightFilterButtons_def handleDatasetSelect_def d initialState_def)
  then have r: "reachable (clickHeightFilter ''gdp'' (handleDatasetSelect ''co2_emissions'' initialState))"
    by (intro reachable.click reachable.select reachable.init)
  show ?thesis
    using C8_disabled_dataset_excluded [OF r d, of "\<lambda>k p. Returns (Num 1)"
      "[\<lparr>properties = \<lparr>ISO_A2 = Some ''FR'', ADMIN = None, NAME = None,
       CONTINENT = None, SUBREGION = None, REGION_UN = None, GDP_MD_EST = None, GDP_MD = None,
       POP_EST = None, POP2005 = None\<rparr>, geometry = OtherGeometry\<rparr>]"] r d
    by simp
qed

subsection \<open>Height statistics\<close>

lemma Math_max_eq: "vs \<noteq> [] \<Longrightarrow> Math_max vs = Max (set vs)"
proof (cases vs)
  case Nil
  assume "vs \<noteq> []"
  with Nil show ?thesis by simp
next
  case (Cons a rest)
  show ?thesis unfolding Cons Math_max.simps by (rule Max.set_eq_fold [symmetric])
qed

lemma Math_min_eq: "vs \<noteq> [] \<Longrightarrow> Math_min vs = Min (set vs)"
proof (cases vs)
  case Nil
  assume "vs \<noteq> []"
  with Nil show ?thesis by simp
next
  case (Cons a rest)
  show ?thesis unfolding Cons Math_min.simps by (rule Min.set_eq_fold [symmetric])
qed

lemma fold_add: "fold (\<lambda>val sum. sum + val) vs (a::real) = a + sum_list vs"
  by (induction vs arbitrary: a) simp_all

lemma meanOf_eq: "meanOf vs = spec_mean vs"
  by (simp add: meanOf_def spec_mean_def fold_add)

lemma floor_fraction: "nat \<lfloor>real n * (real k / 100)\<rfloor> = k * n div 100"
proof -
  have "real n * (real k / 100) = real (k * n) / real 100" by simp
  then have "\<lfloor>real n * (real k / 100)\<rfloor> = int (k * n div 100)"
    by (simp only: floor_divide_of_nat_eq)
  then show ?thesis by simp
qed

lemma atFraction_25: "atFraction vs 0.25 = spec_percentile vs 25"
  using floor_fraction [of "length vs" 25] by (simp add: atFraction_def spec_percentile_def)

lemma atFraction_75: "atFraction vs 0.75 = spec_percentile vs 75"
  using floor_fraction [of "length vs" 75] by (simp add: atFraction_def spec_percentile_def)

lemma atFraction_90: "atFraction vs 0.90 = spec_percentile vs 90"
  using floor_fraction [of "length vs" 90] by (simp add: atFraction_def spec_percentile_def)

lemma atFraction_95: "atFraction vs 0.95 = spec_percentile vs 95"
  using floor_fraction [of "length vs" 95] by (simp add: atFraction_def spec_percentile_def)

lemma atFraction_99: "atFraction vs 0.99 = spec_percentile vs 99"
  using floor_fraction [of "length vs" 99] by (simp add: atFraction_def spec_percentile_def)

lemma floor_half: "nat \<lfloor>real n / 2\<rfloor> = n div 2"
proof -
  have "\<lfloor>real n / real 2\<rfloor> = int (n div 2)"
    by (simp only: floor_divide_of_nat_eq)
  then show ?thesis by simp
qed

lemma medianOf_eq: "medianOf vs = spec_median vs"
  by (simp add: medianOf_def spec_median_def floor_half even_iff_mod_2_eq_zero)

lemma outlierThreshold_eq:
  "outlierThreshold vs = spec_percentile vs 75 + 2.5 * (spec_percentile vs 75 - spec_percentile vs 25)"
  unfolding outlierThreshold_def Let_def atFraction_25 atFraction_75 by simp

lemma isExtremeCrusher_eq: "vs \<noteq> [] \<Longrightarrow> isExtremeCrusher vs = guarded_crusher vs"
  unfolding isExtremeCrusher_def guarded_crusher_def Let_def atFraction_95 meanOf_eq medianOf_eq
    outlierThreshold_eq
  by (simp add: Math_max_eq)


lemma positiveValues_sorted: "sorted (positiveValues g fs)"
  by (simp add: positiveValues_def)




lemma HEIGHT_GETTERS_gdp: "map_of (HEIGHT_GETTERS ext) ''gdp'' = Some (wrapGetter gdpGetter)"
  by (simp add: HEIGHT_GETTERS_def AVAILABLE_DATASETS_eq datasetGetter_def)

lemma gdp_sample: "wrapGetter gdpGetter (sampleFeature x) = (if x < 0 then 0 else x)"
  by (simp add: wrapGetter_def gdpGetter_def sampleFeature_def num_or_def)

lemma heightStats_Some:
  assumes "map_of (HEIGHT_GETTERS ext) filterKey = Some g" and "positiveValues g features \<noteq> []"
  shows "heightStats ext features filterKey = Inr (statsOf (positiveValues g features))"
proof -
  have "filterKey \<noteq> ''none''"
    using assms(1) by (auto simp: HEIGHT_GETTERS_none)
  moreover have "features \<noteq> []"
    using assms(2) by (auto simp: positiveValues_def)
  ultimately show ?thesis
    using assms by (simp add: heightStats_def Let_def)
qed











subsection \<open>Getter failures\<close>

lemma wrapGetter_failure:
  assumes "g (properties feat) = Throws \<or> g (properties feat) = Returns NaN \<or>
           (\<exists>x. x < 0 \<and> g (properties feat) = Returns (Num x))"
  shows "wrapGetter g feat = 0"
  using assms by (auto simp: wrapGetter_def)


text \<open>
  Claim C7. For every feature and every enabled dataset, the value that statistics and
  height computation receive is 0 whenever the dataset's raw getter throws, returns
  \<open>NaN\<close> or returns a negative number: the wrapped getter returns 0 and never throws, the
  feature adds nothing to the positive values of the statistics, and its height is the
  base height.
\<close>

theorem C7_failed_getter_gives_zero:
  assumes "map_of (HEIGHT_GETTERS ext) filterKey = Some heightGetter"
    and "datasetGetter ext filterKey (properties feat) = Throws \<or>
         datasetGetter ext filterKey (properties feat) = Returns NaN \<or>
         (\<exists>x. x < 0 \<and> datasetGetter ext filterKey (properties feat) = Returns (Num x))"
  shows "heightGetter feat = 0 \<and>
         positiveValues heightGetter (feat # rest) = positiveValues heightGetter rest \<and>
         calculatedHeight ext filterKey st feat = Inr (Some baseHeight)"
proof -
  from HEIGHT_GETTERS_Some [OF assms(1)]
  have g: "heightGetter = wrapGetter (datasetGetter ext filterKey)"
    by simp
  have zero: "heightGetter feat = 0"
    unfolding g using assms(2) by (intro wrapGetter_failure)
  then have "positiveValues heightGetter (feat # rest) = positiveValues heightGetter rest"
    by (simp add: positiveValues_def)
  moreover have "calculatedHeight ext filterKey st feat = Inr (Some baseHeight)"
    using assms(1) zero by (simp add: calculatedHeight_def Let_def)
  ultimately show ?thesis using zero by simp
qed

theorem C7_failed_getter_gives_zero_witness:
  "map_of (HEIGHT_GETTERS (\<lambda>k p. Throws)) ''area'' = Some (wrapGetter (\<lambda>p. Throws)) \<and>
   datasetGetter (\<lambda>k p. Throws) ''area'' (properties (sampleFeature 5)) = Throws \<and>
   wrapGetter (\<lambda>p. Throws) (sampleFeature 5) = 0 \<and>
   positiveValues (wrapGetter (\<lambda>p. Throws)) [sampleFeature 5, sampleFeature 7] =
     positiveValues (wrapGetter (\<lambda>p. Throws)) [sampleFeature 7] \<and>
   calculatedHeight (\<lambda>k p. Throws) ''area'' defaultStats (sampleFeature 5) = Inr (Some baseHeight)"
proof -
  have g: "map_of (HEIGHT_GETTERS (\<lambda>k p. Throws)) ''area'' = Some (wrapGetter (\<lambda>p. Throws))"
    by (simp add: HEIGHT_GETTERS_def AVAILABLE_DATASETS_eq datasetGetter_def)
  have t: "datasetGetter (\<lambda>k p. Throws) ''area'' (properties (sampleFeature 5)) = Throws"
    by (simp add: datasetGetter_def)
  from C7_failed_getter_gives_zero [OF g disjI1 [OF t], of "[sampleFeature 7]" defaultStats] g t
  show ?thesis by simp
qed


subsection \<open>Derived region keys\<close>


lemma regionSlug_prefix:
  "regionSlug (''Europe'' @ ''_'' @ s) = regionSlug (''europe_'' @ s)"
  "regionSlug (''Africa'' @ ''_'' @ s) = regionSlug (''africa_'' @ s)"
  "regionSlug (''Asia'' @ ''_'' @ s) = regionSlug (''asia_'' @ s)"
  "regionSlug (''Oceania'' @ ''_'' @ s) = regionSlug (''oceania_'' @ s)"
  by (simp_all add: regionSlug_def toLowerCase_def lowerChar_def)


text \<open>
  Claim C6, as amended. Derived-mode classification returns: for the continents Europe,
  Africa, Asia and Oceania the key \<open>continent_subregion\<close>, lower-cased, with every run
  of white space and ampersands (and of nothing else) collapsed to one underscore; for
  North America \<open>north_america\<close> when the subregion is Northern America and
  \<open>central_america_caribbean\<close> otherwise; for South America \<open>south_america\<close>; and for
  any other continent the continent name alone, lower-cased and collapsed in the same
  way. The key computed inside \<open>createDataDrivenRegions\<close> is the same.
\<close>

theorem C6_derived_region_key:
  "getCountryRegion True country =
    (let continent = or_default (CONTINENT (properties country)) ''Unknown'';
         subregion = or_default (js_or (SUBREGION (properties country)) (REGION_UN (properties country))) ''Unknown''
     in if continent \<in> {''Europe'', ''Africa'', ''Asia'', ''Oceania''}
          then regionSlug (continent @ ''_'' @ subregion)
        else if continent = ''North America''
          then (if subregion = ''Northern America'' then ''north_america'' else ''central_america_caribbean'')
        else if continent = ''South America'' then ''south_america''
        else regionSlug continent) \<and>
   dataDrivenRegionKey (feature.truncate country) = getCountryRegion True country"
proof -
  have "dataDrivenRegionKey (feature.truncate country) = getCountryRegion True country"
    by (simp add: dataDrivenRegionKey_def getCountryRegion_def feature.truncate_def)
  moreover have "getCountryRegion True country =
    (let continent = or_default (CONTINENT (properties country)) ''Unknown'';
         subregion = or_default (js_or (SUBREGION (properties country)) (REGION_UN (properties country))) ''Unknown''
     in if continent \<in> {''Europe'', ''Africa'', ''Asia'', ''Oceania''}
          then regionSlug (continent @ ''_'' @ subregion)
        else if continent = ''North America''
          then (if subregion = ''Northern America'' then ''north_america'' else ''central_america_caribbean'')
        else if continent = ''South America'' then ''south_america''
        else regionSlug continent)"
    using regionSlug_prefix by (auto simp: getCountryRegion_def Let_def)
  ultimately show ?thesis by simp
qed

theorem C6_derived_region_key_witness:
  "getCountryRegion True indonesia = regionSlug (''Asia'' @ ''_'' @ ''South-Eastern Asia'') \<and>
   dataDrivenRegionKey (feature.truncate indonesia) = getCountryRegion True indonesia"
  using C6_derived_region_key [of indonesia]
  by (simp add: indonesia_def or_default_def js_or_def truthy_def)


text \<open>
  Claim C6 as stated fails: a hyphen is neither white space nor an ampersand, so the
  code keeps it, where collapsing every run of non-alphanumeric characters would not.
\<close>

theorem C6_counterexample:
  "getCountryRegion True indonesia = ''asia_south-eastern_asia'' \<and>
   spec_slug (''Asia'' @ ''_'' @ ''South-Eastern Asia'') = ''asia_south_eastern_asia''"
  by (simp add: getCountryRegion_def indonesia_def or_default_def js_or_def truthy_def regionSlug_def
      spec_slug_def toLowerCase_def lowerChar_def isSpaceOrAmp_def isAlnum_def)

subsection \<open>Two values far apart\<close>

lemma two_values_stats:
  "\<not> isExtremeCrusher [100, 100000000]"
  "statsOf [100, 100000000] =
     \<lparr>max_st = 100000000, min_st = 100, mean = 50000050, median = 50000050,
      values_st = [100, 100000000], adjustedMax = 100000000, outliers = []\<rparr>"
proof -
  show c: "\<not> isExtremeCrusher [100, 100000000]"
    by (simp add: isExtremeCrusher_eq guarded_crusher_def spec_percentile_def spec_mean_def spec_median_def)
  show "statsOf [100, 100000000] =
     \<lparr>max_st = 100000000, min_st = 100, mean = 50000050, median = 50000050,
      values_st = [100, 100000000], adjustedMax = 100000000, outliers = []\<rparr>"
    unfolding statsOf_def meanOf_eq medianOf_eq using c
    by (simp add: spec_mean_def spec_median_def)
qed

lemma Math_pow_one: "Math_pow 1 y = Some 1"
  by (simp add: Math_pow_def)

lemma Math_pow_zero: "0 < y \<Longrightarrow> Math_pow 0 y = Some 0"
  by (simp add: Math_pow_def)

lemma boundExponent_range: "0.3 \<le> boundExponent e \<and> boundExponent e \<le> 3.5"
  by (simp add: boundExponent_def max_def min_def)

lemma adaptiveExponent_range:
  "adaptiveExponent st = Some e \<Longrightarrow> 0.3 \<le> e \<and> e \<le> 3.5"
  using boundExponent_range by (auto simp: adaptiveExponent_def Let_def split: if_splits)

lemma adaptiveExponent_defined:
  "values_st st \<noteq> [] \<Longrightarrow> \<exists>e. adaptiveExponent st = Some e"
  by (simp add: adaptiveExponent_def Let_def)

lemma smooth_one: "smooth e 1 \<le> 1"
  by (simp add: smooth_def)

lemma smooth_zero: "smooth e 0 = 0"
  by (simp add: smooth_def)

lemma scale_one:
  assumes "values_st st \<noteq> []"
  shows "\<exists>n. scaleNormalized filterKey st (Some 1) = Some n \<and> n \<le> 1"
proof (cases "isBuiltIn filterKey")
  case True
  then show ?thesis by (simp add: scaleNormalized_def Math_pow_one)
next
  case False
  from adaptiveExponent_defined [OF assms] obtain e where "adaptiveExponent st = Some e" ..
  with False show ?thesis by (simp add: scaleNormalized_def Math_pow_one smooth_one)
qed

lemma scale_zero:
  assumes "values_st st \<noteq> []"
  shows "scaleNormalized filterKey st (Some 0) = Some 0"
proof (cases "isBuiltIn filterKey")
  case True
  then show ?thesis by (simp add: scaleNormalized_def Math_pow_zero)
next
  case False
  from adaptiveExponent_defined [OF assms] obtain e where e: "adaptiveExponent st = Some e" ..
  from adaptiveExponent_range [OF e] have "0 < e" by simp
  with False e show ?thesis by (simp add: scaleNormalized_def Math_pow_zero smooth_zero)
qed


text \<open>
  Claim C3, as amended. For every input of exactly two features under one active dataset
  with the positive values 100 and 100,000,000, the crusher condition does not trigger:
  \<open>adjustedMax\<close> is the maximum and no value is flagged an outlier. The larger value is
  normalised to exactly 1.0 and stays at most 1.0 after the dataset scaling; the smaller
  value is normalised to 0 and stays 0.
\<close>

theorem C3_two_values:
  assumes "map_of (HEIGHT_GETTERS ext) filterKey = Some g"
    and "g f1 = 100 \<and> g f2 = 100000000 \<or> g f1 = 100000000 \<and> g f2 = 100"
  shows "\<exists>st. heightStats ext [f1, f2] filterKey = Inr st \<and>
           \<not> isExtremeCrusher (positiveValues g [f1, f2]) \<and>
           adjustedMax st = max_st st \<and> outliers st = [] \<and>
           normalizedValue st 100000000 = Some 1 \<and> normalizedValue st 100 = Some 0 \<and>
           (\<exists>n. scaleNormalized filterKey st (Some 1) = Some n \<and> n \<le> 1) \<and>
           scaleNormalized filterKey st (Some 0) = Some 0"
proof -
  have vs: "positiveValues g [f1, f2] = [100, 100000000]"
    using assms(2) by (auto simp: positiveValues_def)
  then have st: "heightStats ext [f1, f2] filterKey = Inr (statsOf [100, 100000000])"
    using heightStats_Some [OF assms(1), of "[f1, f2]"] by simp
  let ?st = "statsOf [100, 100000000]"
  have ne: "values_st ?st \<noteq> []"
    by (simp add: two_values_stats(2))
  have "normalizedValue ?st 100000000 = Some 1" "normalizedValue ?st 100 = Some 0"
    by (simp_all add: two_values_stats(2) normalizedValue_def)
  moreover have "adjustedMax ?st = max_st ?st" "outliers ?st = []"
    by (simp_all add: two_values_stats(2))
  moreover note scale_one [OF ne, of filterKey] scale_zero [OF ne, of filterKey] two_values_stats(1)
  ultimately show ?thesis
    using st vs by simp
qed

theorem C3_two_values_witness:
  "map_of (HEIGHT_GETTERS (\<lambda>k p. Throws)) ''gdp'' = Some (wrapGetter gdpGetter) \<and>
   wrapGetter gdpGetter (sampleFeature 100) = 100 \<and>
   wrapGetter gdpGetter (sampleFeature 100000000) = 100000000 \<and>
   (\<exists>st. heightStats (\<lambda>k p. Throws) [sampleFeature 100, sampleFeature 100000000] ''gdp'' = Inr st \<and>
         adjustedMax st = max_st st \<and> outliers st = [] \<and>
         normalizedValue st 100000000 = Some 1 \<and> normalizedValue st 100 = Some 0)"
proof -
  have g: "map_of (HEIGHT_GETTERS (\<lambda>k p. Throws)) ''gdp'' = Some (wrapGetter gdpGetter)"
    by (rule HEIGHT_GETTERS_gdp)
  have v: "wrapGetter gdpGetter (sampleFeature 100) = 100 \<and>
           wrapGetter gdpGetter (sampleFeature 100000000) = 100000000"
    by (simp add: gdp_sample)
  from C3_two_values [OF g disjI1 [OF v]] g v show ?thesis by blast
qed


text \<open>
  Claim C3 as stated fails: with two values the elements at the 75th and 95th percentile
  indices are the maximum itself, and the ratios of the maximum to the mean and to the
  median are below 2. The larger value is no outlier, its normalised height is 1.0, and
  its height is the base height plus the height multiplier.
\<close>

theorem C3_counterexample:
  "heightStats (\<lambda>k p. Throws) [sampleFeature 100, sampleFeature 100000000] ''gdp'' =
     Inr (statsOf [100, 100000000]) \<and>
   heightStats (\<lambda>k p. Throws) [sampleFeature 100000000, sampleFeature 100] ''gdp'' =
     Inr (statsOf [100, 100000000]) \<and>
   \<not> isExtremeCrusher [100, 100000000] \<and>
   100000000 \<notin> set (outliers (statsOf [100, 100000000])) \<and>
   normalizedValue (statsOf [100, 100000000]) 100000000 = Some 1 \<and>
   calculatedHeight (\<lambda>k p. Throws) ''gdp'' (statsOf [100, 100000000]) (sampleFeature 100000000) =
     Inr (Some (baseHeight + heightMultiplier ''gdp''))"
proof -
  have g: "map_of (HEIGHT_GETTERS (\<lambda>k p. Throws)) ''gdp'' = Some (wrapGetter gdpGetter)"
    by (rule HEIGHT_GETTERS_gdp)
  have "positiveValues (wrapGetter gdpGetter) [sampleFeature 100, sampleFeature 100000000] = [100, 100000000]"
       "positiveValues (wrapGetter gdpGetter) [sampleFeature 100000000, sampleFeature 100] = [100, 100000000]"
    by (simp_all add: positiveValues_def gdp_sample)
  then have "heightStats (\<lambda>k p. Throws) [sampleFeature 100, sampleFeature 100000000] ''gdp'' =
     Inr (statsOf [100, 100000000])"
    "heightStats (\<lambda>k p. Throws) [sampleFeature 100000000, sampleFeature 100] ''gdp'' =
     Inr (statsOf [100, 100000000])"
    using heightStats_Some [OF g, of "[sampleFeature 100, sampleFeature 100000000]"]
      heightStats_Some [OF g, of "[sampleFeature 100000000, sampleFeature 100]"]
    by simp_all
  moreover have "normalizedValue (statsOf [100, 100000000]) 100000000 = Some 1"
    by (simp add: two_values_stats(2) normalizedValue_def)
  moreover have "calculatedHeight (\<lambda>k p. Throws) ''gdp'' (statsOf [100, 100000000]) (sampleFeature 100000000) =
     Inr (Some (baseHeight + heightMultiplier ''gdp''))"
    by (simp add: calculatedHeight_def g gdp_sample two_values_stats(2) normalizedValue_def
        scaleNormalized_def isBuiltIn_def)
  ultimately show ?thesis
    using two_values_stats by simp
qed

subsection \<open>Ordering the shared points\<close>

lemma closestStep_invariant:
  assumes "snd st = None \<or> (\<exists>j. fst st = j \<and> j < k \<and> j < length ps0 \<and> snd st = Some (distance p (ps0 ! j)))"
      and "\<forall>j < k. j < length ps0 \<longrightarrow> (\<exists>m. snd st = Some m \<and> m \<le> distance p (ps0 ! j))"
      and "k + length ps = length ps0" and "drop k ps0 = ps" and "ps \<noteq> [] \<or> snd st \<noteq> None"
  shows "let st' = fold (closestStep p) (enumerate k ps) st
         in fst st' < length ps0 \<and> (\<forall>j < length ps0. distance p (ps0 ! fst st') \<le> distance p (ps0 ! j))"
  using assms
proof (induction ps arbitrary: k st)
  case Nil
  then show ?case by (auto simp: Let_def)
next
  case (Cons q qs)
  have k: "k < length ps0"
    using Cons.prems(3) by simp
  have q: "q = ps0 ! k"
    using Cons.prems(4) k by (metis hd_drop_conv_nth list.sel(1))
  have dq: "drop (Suc k) ps0 = qs"
    using Cons.prems(4) by (metis drop_Suc list.sel(3) tl_drop)
  let ?st = "closestStep p (k, q) st"
  have 1: "snd ?st = None \<or> (\<exists>j. fst ?st = j \<and> j < Suc k \<and> j < length ps0 \<and> snd ?st = Some (distance p (ps0 ! j)))"
    using Cons.prems(1) k q by (auto simp: closestStep_def Let_def split: option.splits)
  have 2: "\<forall>j < Suc k. j < length ps0 \<longrightarrow> (\<exists>m. snd ?st = Some m \<and> m \<le> distance p (ps0 ! j))"
  proof (intro allI impI)
    fix j assume j: "j < Suc k" "j < length ps0"
    show "\<exists>m. snd ?st = Some m \<and> m \<le> distance p (ps0 ! j)"
    proof (cases "j = k")
      case True
      then show ?thesis using q by (auto simp: closestStep_def Let_def split: option.splits)
    next
      case False
      with j have "j < k" by simp
      with Cons.prems(2) j obtain m where "snd st = Some m" "m \<le> distance p (ps0 ! j)" by blast
      then show ?thesis by (auto simp: closestStep_def Let_def)
    qed
  qed
  have 3: "Suc k + length qs = length ps0" using Cons.prems(3) by simp
  have 4: "qs \<noteq> [] \<or> snd ?st \<noteq> None"
    by (auto simp: closestStep_def Let_def split: option.splits)
  from Cons.IH [OF 1 2 3 dq 4] show ?case by simp
qed

lemma closestIndex_minimal:
  assumes "remaining \<noteq> []"
  shows "\<forall>q \<in> set remaining. distance p (remaining ! closestIndex p remaining) \<le> distance p q"
proof -
  have "let st' = fold (closestStep p) (enumerate 0 remaining) (0, None)
        in fst st' < length remaining \<and>
           (\<forall>j < length remaining. distance p (remaining ! fst st') \<le> distance p (remaining ! j))"
    by (rule closestStep_invariant) (use assms in auto)
  then have *: "\<forall>j < length remaining.
      distance p (remaining ! closestIndex p remaining) \<le> distance p (remaining ! j)"
    by (simp add: closestIndex_def Let_def)
  show ?thesis
  proof
    fix q assume "q \<in> set remaining"
    then obtain j where "j < length remaining" "remaining ! j = q"
      by (auto simp: in_set_conv_nth)
    with * show "distance p (remaining ! closestIndex p remaining) \<le> distance p q"
      by blast
  qed
qed


lemma mset_remove_nth:
  "i < length xs \<Longrightarrow> mset (take i xs @ drop (Suc i) xs) + {#xs ! i#} = mset xs"
proof -
  assume "i < length xs"
  then have "xs = take i xs @ xs ! i # drop (Suc i) xs"
    by (rule id_take_nth_drop)
  then have "mset xs = mset (take i xs @ xs ! i # drop (Suc i) xs)"
    by simp
  then show ?thesis by simp
qed

lemma chainPoints_Nil: "chainPoints chain [] = chain"
  by (simp add: chainPoints.simps [of chain "[]"])

lemma chainPoints_prefix:
  "\<exists>rest. chainPoints chain remaining = chain @ rest \<and> mset rest = mset remaining"
proof (induction chain remaining rule: chainPoints.induct)
  case (1 chain remaining)
  show ?case
  proof (cases "remaining = []")
    case True
    then show ?thesis by (simp add: chainPoints_Nil)
  next
    case False
    let ?i = "closestIndex (last chain) remaining"
    let ?r = "take ?i remaining @ drop (Suc ?i) remaining"
    have i: "?i < length remaining"
      by (rule closestIndex_less [OF False])
    from "1.IH" [OF False refl] obtain rest
      where rest: "chainPoints (chain @ [remaining ! ?i]) ?r = (chain @ [remaining ! ?i]) @ rest"
        and m: "mset rest = mset ?r"
      by blast
    have "chainPoints chain remaining = chain @ (remaining ! ?i # rest)"
      using False rest by (simp add: chainPoints.simps [of chain remaining] Let_def)
    moreover have "mset (remaining ! ?i # rest) = mset remaining"
      using m mset_remove_nth [OF i] by simp
    ultimately show ?thesis by blast
  qed
qed

lemma chainPoints_greedy:
  assumes "chain \<noteq> []" and "length chain \<le> Suc k" and "Suc k < length (chainPoints chain remaining)"
    and "q \<in> set (drop (Suc k) (chainPoints chain remaining))"
  shows "distance (chainPoints chain remaining ! k) (chainPoints chain remaining ! Suc k)
         \<le> distance (chainPoints chain remaining ! k) q"
  using assms
proof (induction chain remaining rule: chainPoints.induct)
  case (1 chain remaining)
  show ?case
  proof (cases "remaining = []")
    case True
    with "1.prems" show ?thesis by (simp add: chainPoints_Nil)
  next
    case False
    let ?i = "closestIndex (last chain) remaining"
    let ?r = "take ?i remaining @ drop (Suc ?i) remaining"
    let ?c = "chain @ [remaining ! ?i]"
    have i: "?i < length remaining"
      by (rule closestIndex_less [OF False])
    have unfold: "chainPoints chain remaining = chainPoints ?c ?r"
      using False by (simp add: chainPoints.simps [of chain remaining] Let_def)
    show ?thesis
    proof (cases "length ?c \<le> Suc k")
      case True
      have "distance (chainPoints ?c ?r ! k) (chainPoints ?c ?r ! Suc k)
            \<le> distance (chainPoints ?c ?r ! k) q"
        by (rule "1.IH" [OF False refl _ True]) (use "1.prems" unfold in simp_all)
      then show ?thesis by (simp only: unfold)
    next
      case False
      with "1.prems"(2) have k: "Suc k = length chain" by simp
      from chainPoints_prefix [of ?c ?r] obtain rest
        where rest: "chainPoints ?c ?r = ?c @ rest" and m: "mset rest = mset ?r"
        by blast
      have out: "chainPoints chain remaining = chain @ remaining ! ?i # rest"
        using unfold rest by simp
      have "set (remaining ! ?i # rest) = set remaining"
      proof -
        have "mset (remaining ! ?i # rest) = mset remaining"
          using m mset_remove_nth [OF i] by simp
        then show ?thesis by (rule mset_eq_setD)
      qed
      then have q: "q \<in> set remaining"
        using "1.prems"(4) k by (simp add: out)
      have "k = length chain - 1"
        using k by simp
      then have "chainPoints chain remaining ! k = last chain"
        using k "1.prems"(1) by (simp add: out nth_append last_conv_nth)
      moreover have "chainPoints chain remaining ! Suc k = remaining ! ?i"
        using k by (simp add: out nth_append)
      ultimately show ?thesis
        using closestIndex_minimal [OF \<open>remaining \<noteq> []\<close>, of "last chain"] q by simp
    qed
  qed
qed


text \<open>
  Claim C9. For every list of at least three shared points, the emitted polyline is a
  permutation of the shared points that starts with the first discovered point, and
  every next point is, among the points not yet used (those from its position on),
  one with the least planar Euclidean distance to the current end of the chain. It is
  what \<open>findSharedBoundary\<close> returns for the shared points of two rings.
\<close>

theorem C9_nearest_neighbour_chain:
  assumes "3 \<le> length points"
  shows "mset (sortBoundaryPoints points) = mset points \<and>
         hd (sortBoundaryPoints points) = hd points \<and>
         (\<forall>k. Suc k < length points \<longrightarrow>
            (\<forall>q \<in> set (drop (Suc k) (sortBoundaryPoints points)).
               distance (sortBoundaryPoints points ! k) (sortBoundaryPoints points ! Suc k)
               \<le> distance (sortBoundaryPoints points ! k) q)) \<and>
         (sharedPoints tol coords1 coords2 = points \<longrightarrow>
            findSharedBoundary (Some coords1) (Some coords2) tol = Inr (sortBoundaryPoints points))"
proof -
  from assms obtain p ps where points: "points = p # ps"
    by (cases points) auto
  have sort: "sortBoundaryPoints points = chainPoints [p] ps"
    using assms by (simp add: sortBoundaryPoints_def points)
  from chainPoints_prefix [of "[p]" ps] obtain rest
    where rest: "chainPoints [p] ps = [p] @ rest" and m: "mset rest = mset ps"
    by blast
  have perm: "mset (sortBoundaryPoints points) = mset points"
    unfolding sort rest by (simp add: m points)
  then have len: "length (sortBoundaryPoints points) = length points"
    by (rule mset_eq_length)
  have "hd (sortBoundaryPoints points) = hd points"
    unfolding sort rest by (simp add: points)
  moreover have "\<forall>k. Suc k < length points \<longrightarrow>
            (\<forall>q \<in> set (drop (Suc k) (sortBoundaryPoints points)).
               distance (sortBoundaryPoints points ! k) (sortBoundaryPoints points ! Suc k)
               \<le> distance (sortBoundaryPoints points ! k) q)"
  proof (intro allI impI ballI)
    fix k q
    assume "Suc k < length points" and "q \<in> set (drop (Suc k) (sortBoundaryPoints points))"
    then show "distance (sortBoundaryPoints points ! k) (sortBoundaryPoints points ! Suc k)
               \<le> distance (sortBoundaryPoints points ! k) q"
      using chainPoints_greedy [of "[p]" k ps q] len unfolding sort by simp
  qed
  moreover have "sharedPoints tol coords1 coords2 = points \<longrightarrow>
            findSharedBoundary (Some coords1) (Some coords2) tol = Inr (sortBoundaryPoints points)"
  proof
    assume sp: "sharedPoints tol coords1 coords2 = points"
    have "coords1 \<noteq> []"
    proof
      assume "coords1 = []"
      then have "sharedPoints tol coords1 coords2 = []"
        by (simp add: sharedPoints_def)
      with sp assms show False by simp
    qed
    then show "findSharedBoundary (Some coords1) (Some coords2) tol = Inr (sortBoundaryPoints points)"
      using sp assms by (simp add: findSharedBoundary_def Let_def)
  qed
  ultimately show ?thesis using perm by blast
qed


lemma sort_example:
  "sortBoundaryPoints [(0, 0), (3, 0), (1, 0)] = [(0, 0), (1, 0), (3, 0)]"
  by (simp add: sortBoundaryPoints_def chainPoints.simps closestIndex_def closestStep_def distance_def)

theorem C9_nearest_neighbour_chain_witness:
  "3 \<le> length [(0, 0), (3, 0), (1, 0) :: point] \<and>
   sortBoundaryPoints [(0, 0), (3, 0), (1, 0)] = [(0, 0), (1, 0), (3, 0)] \<and>
   mset (sortBoundaryPoints [(0, 0), (3, 0), (1, 0)]) = mset [(0, 0), (3, 0), (1, 0)] \<and>
   hd (sortBoundaryPoints [(0, 0), (3, 0), (1, 0)]) = hd [(0, 0), (3, 0), (1, 0)] \<and>
   distance (sortBoundaryPoints [(0, 0), (3, 0), (1, 0)] ! 0) (sortBoundaryPoints [(0, 0), (3, 0), (1, 0)] ! 1)
     \<le> distance (sortBoundaryPoints [(0, 0), (3, 0), (1, 0)] ! 0) (3, 0)"
proof -
  have len: "3 \<le> length [(0, 0), (3, 0), (1, 0) :: point]"
    by simp
  note c = C9_nearest_neighbour_chain [OF len, of 1 "[]" "[]"]
  have "(3, 0) \<in> set (drop (Suc 0) (sortBoundaryPoints [(0, 0), (3, 0), (1, 0)]))"
    by (simp add: sort_example)
  with c have "distance (sortBoundaryPoints [(0, 0), (3, 0), (1, 0)] ! 0) (sortBoundaryPoints [(0, 0), (3, 0), (1, 0)] ! Suc 0)
     \<le> distance (sortBoundaryPoints [(0, 0), (3, 0), (1, 0)] ! 0) (3, 0)"
    by auto
  with c len sort_example show ?thesis by simp
qed

subsection \<open>Boundary segments\<close>

lemma forEachE_invariant:
  assumes "forEachE f xs s = Inr s'" and "I s"
    and "\<And>x t t'. x \<in> set xs \<Longrightarrow> I t \<Longrightarrow> f x t = Inr t' \<Longrightarrow> I t'"
  shows "I s'"
  using assms
proof (induction xs arbitrary: s)
  case Nil
  then show ?case by simp
next
  case (Cons x xs)
  from Cons.prems(1) obtain t where t: "f x s = Inr t" and rest: "forEachE f xs t = Inr s'"
    by (auto split: sum.splits)
  have "I t"
    by (rule Cons.prems(3) [OF _ Cons.prems(2) t]) simp
  show ?case
    by (rule Cons.IH [OF rest \<open>I t\<close>]) (rule Cons.prems(3), auto)
qed

lemma entryPairs_mem:
  "(a, b) \<in> set (entryPairs xs) \<Longrightarrow> a \<in> set xs \<and> b \<in> set xs"
  by (induction xs) auto

lemma entryPairs_distinct:
  "(a, b) \<in> set (entryPairs xs) \<Longrightarrow> distinct (map fst xs) \<Longrightarrow> fst a \<noteq> fst b"
proof (induction xs)
  case Nil
  then show ?case by simp
next
  case (Cons x xs)
  then show ?case
    using entryPairs_mem [of a b xs] by (auto simp: image_iff)
qed

lemma length_sortBoundaryPoints: "length (sortBoundaryPoints ps) = length ps"
proof (cases "length ps \<le> 2")
  case True
  then show ?thesis by (simp add: sortBoundaryPoints_def)
next
  case False
  then obtain p rest where ps: "ps = p # rest"
    by (cases ps) auto
  from chainPoints_prefix [of "[p]" rest] obtain r
    where "chainPoints [p] rest = [p] @ r" "mset r = mset rest"
    by blast
  then have "length (chainPoints [p] rest) = Suc (length rest)"
    using mset_eq_length [of r rest] by simp
  with False show ?thesis by (simp add: sortBoundaryPoints_def ps)
qed

lemma findSharedBoundary_two:
  assumes "findSharedBoundary r1 r2 tol = Inr coords" and "2 \<le> length coords"
  shows "\<exists>ring1 ring2. r1 = Some ring1 \<and> r2 = Some ring2 \<and>
           2 \<le> length (sharedPoints tol ring1 ring2) \<and>
           coords = sortBoundaryPoints (sharedPoints tol ring1 ring2)"
  using assms
  by (auto simp: findSharedBoundary_def Let_def length_sortBoundaryPoints
      split: option.splits if_splits)

lemma findSharedBoundary_few:
  assumes "length (sharedPoints tol ring1 ring2) < 2"
  shows "\<exists>coords. findSharedBoundary (Some ring1) (Some ring2) tol = Inr coords \<and> length coords < 2"
  using assms by (simp add: findSharedBoundary_def Let_def)

lemma pushBoundary_few:
  assumes "extractCoordinates (geometry c1) = Inr (Some ring1)"
    and "extractCoordinates (geometry c2) = Inr (Some ring2)"
    and "length (sharedPoints tolerance ring1 ring2) < 2"
  shows "pushBoundary tag r1 r2 c1 c2 boundaries = Inr boundaries"
proof -
  from findSharedBoundary_few [OF assms(3)] obtain coords
    where "findSharedBoundary (Some ring1) (Some ring2) tolerance = Inr coords" "length coords < 2"
    by blast
  then show ?thesis
    using assms(1,2) by (simp add: pushBoundary_def)
qed

lemma pushBoundary_invariant:
  assumes "pushBoundary tag r1 r2 c1 c2 bs = Inr bs'"
    and "r1 \<noteq> r2" and "c1 \<in> set cs" and "c2 \<in> set cs"
    and "\<forall>b \<in> set bs. wellFormedSegment b \<and> emittedFrom cs b"
  shows "\<forall>b \<in> set bs'. wellFormedSegment b \<and> emittedFrom cs b"
proof -
  from assms(1) obtain k1 k2 coords
    where k1: "extractCoordinates (geometry c1) = Inr k1"
      and k2: "extractCoordinates (geometry c2) = Inr k2"
      and f: "findSharedBoundary k1 k2 tolerance = Inr coords"
    by (auto simp: pushBoundary_def split: sum.splits)
  show ?thesis
  proof (cases "2 \<le> length coords")
    case False
    with assms(1) k1 k2 f have "bs' = bs"
      by (simp add: pushBoundary_def)
    with assms(5) show ?thesis by simp
  next
    case True
    define nb where "nb =
      \<lparr>coordinates = coords, regions = [r1, r2],
        countries = [getCountryCode c1, getCountryCode c2],
        boundary_id = ''boundary_'' @ r1 @ ''_'' @ r2 @ ''_'' @ string_of_nat (length bs),
        boundary_type = tag\<rparr>"
    from assms(1) k1 k2 f True have bs': "bs' = bs @ [nb]"
      by (simp add: pushBoundary_def nb_def)
    from findSharedBoundary_two [OF f True] obtain ring1 ring2
      where "k1 = Some ring1" "k2 = Some ring2"
        "2 \<le> length (sharedPoints tolerance ring1 ring2)"
        "coords = sortBoundaryPoints (sharedPoints tolerance ring1 ring2)"
      by blast
    with k1 k2 assms(3,4) have "emittedFrom cs nb"
      unfolding emittedFrom_def nb_def by auto
    moreover have "wellFormedSegment nb"
      using True assms(2) by (simp add: wellFormedSegment_def nb_def)
    ultimately show ?thesis
      using assms(5) by (simp add: bs')
  qed
qed

lemma pushRegionPair_invariant:
  assumes "pushRegionPair tag rr bs = Inr bs'"
    and "fst (fst rr) \<noteq> fst (snd rr)"
    and "set (snd (fst rr)) \<subseteq> set cs" and "set (snd (snd rr)) \<subseteq> set cs"
    and "\<forall>b \<in> set bs. wellFormedSegment b \<and> emittedFrom cs b"
  shows "\<forall>b \<in> set bs'. wellFormedSegment b \<and> emittedFrom cs b"
proof (rule forEachE_invariant [OF assms(1) [unfolded pushRegionPair_def]
      , where I = "\<lambda>t. \<forall>b \<in> set t. wellFormedSegment b \<and> emittedFrom cs b"])
  show "\<forall>b \<in> set bs. wellFormedSegment b \<and> emittedFrom cs b"
    by (rule assms(5))
next
  fix c1 t t'
  assume c1: "c1 \<in> set (snd (fst rr))"
    and t: "\<forall>b \<in> set t. wellFormedSegment b \<and> emittedFrom cs b"
    and inner: "forEachE (pushBoundary tag (fst (fst rr)) (fst (snd rr)) c1) (snd (snd rr)) t = Inr t'"
  show "\<forall>b \<in> set t'. wellFormedSegment b \<and> emittedFrom cs b"
  proof (rule forEachE_invariant [OF inner
        , where I = "\<lambda>t. \<forall>b \<in> set t. wellFormedSegment b \<and> emittedFrom cs b"])
    show "\<forall>b \<in> set t. wellFormedSegment b \<and> emittedFrom cs b"
      by (rule t)
  next
    fix c2 u u'
    assume "c2 \<in> set (snd (snd rr))"
      and "\<forall>b \<in> set u. wellFormedSegment b \<and> emittedFrom cs b"
      and "pushBoundary tag (fst (fst rr)) (fst (snd rr)) c1 c2 u = Inr u'"
    then show "\<forall>b \<in> set u'. wellFormedSegment b \<and> emittedFrom cs b"
      using pushBoundary_invariant [of tag "fst (fst rr)" "fst (snd rr)" c1 c2 u u' cs]
        assms(2,3,4) c1 by blast
  qed
qed

lemma distinct_REGIONS: "distinct (map fst REGIONS)"
  by (simp add: REGIONS_def)

lemma createManualRegionBoundaries_invariant:
  assumes "createManualRegionBoundaries cs = Inr bs"
  shows "\<forall>b \<in> set bs. wellFormedSegment b \<and> emittedFrom cs b"
proof (rule forEachE_invariant [OF assms [unfolded createManualRegionBoundaries_def]
      , where I = "\<lambda>t. \<forall>b \<in> set t. wellFormedSegment b \<and> emittedFrom cs b"])
  show "\<forall>b \<in> set []. wellFormedSegment b \<and> emittedFrom cs b"
    by simp
next
  fix rr :: "(string \<times> string list) \<times> (string \<times> string list)" and t t'
  assume rr: "rr \<in> set (entryPairs REGIONS)"
    and t: "\<forall>b \<in> set t. wellFormedSegment b \<and> emittedFrom cs b"
    and step: "pushRegionPair ''manual_boundary''
         ((fst (fst rr), filter (inRegion (snd (fst rr))) cs),
          (fst (snd rr), filter (inRegion (snd (snd rr))) cs)) t = Inr t'"
  from rr have "fst (fst rr) \<noteq> fst (snd rr)"
    using entryPairs_distinct [of "fst rr" "snd rr" REGIONS] distinct_REGIONS by simp
  then show "\<forall>b \<in> set t'. wellFormedSegment b \<and> emittedFrom cs b"
    using pushRegionPair_invariant [OF step, of cs] t by simp
qed

lemma pushToRegion_keys:
  "set (map fst (pushToRegion k c m)) = insert k (set (map fst m))"
  by (induction m) auto

lemma pushToRegion_distinct:
  "distinct (map fst m) \<Longrightarrow> distinct (map fst (pushToRegion k c m))"
proof (induction m)
  case Nil
  then show ?case by simp
next
  case (Cons e es)
  then show ?case
    using pushToRegion_keys [of k c es] by (auto simp: image_iff)
qed

lemma pushToRegion_members:
  "e \<in> set (pushToRegion k c m) \<Longrightarrow> set (snd e) \<subseteq> insert c (\<Union>x \<in> set m. set (snd x))"
  by (induction m) (auto split: if_splits)

lemma subset_step: "X \<subseteq> C \<union> A \<Longrightarrow> A \<subseteq> insert c B \<Longrightarrow> X \<subseteq> set (c # cs) \<union> B"
  if "C = set cs" for X C A B
  using that by auto

lemma createDataDrivenRegions_fold:
  "distinct (map fst m) \<Longrightarrow>
   distinct (map fst (fold (\<lambda>country regionMap. pushToRegion (dataDrivenRegionKey country) country regionMap) cs m)) \<and>
   (\<forall>e \<in> set (fold (\<lambda>country regionMap. pushToRegion (dataDrivenRegionKey country) country regionMap) cs m).
      set (snd e) \<subseteq> set cs \<union> (\<Union>x \<in> set m. set (snd x)))"
proof (induction cs arbitrary: m)
  case Nil
  then show ?case by auto
next
  case (Cons c cs)
  let ?F = "\<lambda>country regionMap. pushToRegion (dataDrivenRegionKey country) country regionMap"
  let ?m = "pushToRegion (dataDrivenRegionKey c) c m"
  have d: "distinct (map fst ?m)"
    by (rule pushToRegion_distinct [OF Cons.prems])
  have sub: "(\<Union>x \<in> set ?m. set (snd x)) \<subseteq> insert c (\<Union>x \<in> set m. set (snd x))"
  proof
    fix y assume "y \<in> (\<Union>x \<in> set ?m. set (snd x))"
    then obtain e where e: "e \<in> set ?m" "y \<in> set (snd e)" by blast
    from pushToRegion_members [OF e(1)] e(2)
    show "y \<in> insert c (\<Union>x \<in> set m. set (snd x))" by blast
  qed
  have step: "fold ?F (c # cs) m = fold ?F cs ?m"
    by simp
  from Cons.IH [OF d] have 1: "distinct (map fst (fold ?F cs ?m))"
    and 2: "\<forall>e \<in> set (fold ?F cs ?m). set (snd e) \<subseteq> set cs \<union> (\<Union>x \<in> set ?m. set (snd x))"
    by blast+
  have "\<forall>e \<in> set (fold ?F cs ?m). set (snd e) \<subseteq> set (c # cs) \<union> (\<Union>x \<in> set m. set (snd x))"
  proof
    fix e assume "e \<in> set (fold ?F cs ?m)"
    with 2 have "set (snd e) \<subseteq> set cs \<union> (\<Union>x \<in> set ?m. set (snd x))" by blast
    then show "set (snd e) \<subseteq> set (c # cs) \<union> (\<Union>x \<in> set m. set (snd x))"
      using sub by (rule subset_step [OF refl])
  qed
  with 1 show ?case unfolding step by blast
qed

lemma createDataDrivenRegions_props:
  "distinct (map fst (createDataDrivenRegions cs))"
  "e \<in> set (createDataDrivenRegions cs) \<Longrightarrow> set (snd e) \<subseteq> set cs"
  using createDataDrivenRegions_fold [of "[]" cs] by (auto simp: createDataDrivenRegions_def)

lemma createDataDrivenRegionBoundaries_invariant:
  assumes "createDataDrivenRegionBoundaries cs = Inr bs"
  shows "\<forall>b \<in> set bs. wellFormedSegment b \<and> emittedFrom cs b"
proof (rule forEachE_invariant [OF assms [unfolded createDataDrivenRegionBoundaries_def]
      , where I = "\<lambda>t. \<forall>b \<in> set t. wellFormedSegment b \<and> emittedFrom cs b"])
  show "\<forall>b \<in> set []. wellFormedSegment b \<and> emittedFrom cs b"
    by simp
next
  fix rr :: "(string \<times> feature list) \<times> (string \<times> feature list)" and t t'
  assume rr: "rr \<in> set (entryPairs (createDataDrivenRegions cs))"
    and t: "\<forall>b \<in> set t. wellFormedSegment b \<and> emittedFrom cs b"
    and step: "pushRegionPair ''data_driven_boundary'' rr t = Inr t'"
  from rr have mem: "fst rr \<in> set (createDataDrivenRegions cs)" "snd rr \<in> set (createDataDrivenRegions cs)"
    using entryPairs_mem [of "fst rr" "snd rr"] by simp_all
  from rr have "fst (fst rr) \<noteq> fst (snd rr)"
    using entryPairs_distinct [of "fst rr" "snd rr"] createDataDrivenRegions_props(1) by simp
  then show "\<forall>b \<in> set t'. wellFormedSegment b \<and> emittedFrom cs b"
    using pushRegionPair_invariant [OF step, of cs] t createDataDrivenRegions_props(2) [OF mem(1)]
      createDataDrivenRegions_props(2) [OF mem(2)]
    by simp
qed


lemma matchStep_used:
  "snd (matchStep tol c e st) = snd st \<union> (if distance c (snd e) < tol then {fst e} else {})"
  by (auto simp: matchStep_def)

lemma matchStep_count:
  assumes "finite (snd st)" and "length (fst st) = card (snd st)"
  shows "finite (snd (matchStep tol c e st)) \<and>
         length (fst (matchStep tol c e st)) = card (snd (matchStep tol c e st))"
  using assms by (auto simp: matchStep_def)

lemma matchRow_count:
  assumes "finite (snd st)" and "length (fst st) = card (snd st)"
  shows "finite (snd (fold (matchStep tol c) es st)) \<and>
         length (fst (fold (matchStep tol c) es st)) = card (snd (fold (matchStep tol c) es st))"
  using assms
proof (induction es arbitrary: st)
  case Nil
  then show ?case by simp
next
  case (Cons e es)
  from matchStep_count [OF Cons.prems, of tol c e]
  show ?case by (simp add: Cons.IH)
qed

lemma matchRow_used:
  "snd (fold (matchStep tol c) (enumerate k bs) st) =
   snd st \<union> {i. k \<le> i \<and> i < k + length bs \<and> distance c (bs ! (i - k)) < tol}"
proof (induction bs arbitrary: k st)
  case Nil
  show ?case by auto
next
  case (Cons b bs)
  have split: "{i. k \<le> i \<and> i < k + length (b # bs) \<and> distance c ((b # bs) ! (i - k)) < tol} =
      (if distance c b < tol then {k} else {}) \<union>
      {i. Suc k \<le> i \<and> i < Suc k + length bs \<and> distance c (bs ! (i - Suc k)) < tol}"
  proof (intro set_eqI iffI)
    fix i
    assume "i \<in> {i. k \<le> i \<and> i < k + length (b # bs) \<and> distance c ((b # bs) ! (i - k)) < tol}"
    then have i: "k \<le> i" "i < k + length (b # bs)" "distance c ((b # bs) ! (i - k)) < tol"
      by simp_all
    show "i \<in> (if distance c b < tol then {k} else {}) \<union>
      {i. Suc k \<le> i \<and> i < Suc k + length bs \<and> distance c (bs ! (i - Suc k)) < tol}"
    proof (cases "i = k")
      case True
      with i(3) show ?thesis by simp
    next
      case False
      with i(1) have "Suc k \<le> i" by simp
      then have "i - k = Suc (i - Suc k)" by simp
      with i \<open>Suc k \<le> i\<close> show ?thesis by simp
    qed
  next
    fix i
    assume "i \<in> (if distance c b < tol then {k} else {}) \<union>
      {i. Suc k \<le> i \<and> i < Suc k + length bs \<and> distance c (bs ! (i - Suc k)) < tol}"
    then consider "i = k" "distance c b < tol"
      | "Suc k \<le> i" "i < Suc k + length bs" "distance c (bs ! (i - Suc k)) < tol"
      by (auto split: if_splits)
    then show "i \<in> {i. k \<le> i \<and> i < k + length (b # bs) \<and> distance c ((b # bs) ! (i - k)) < tol}"
    proof cases
      case 1
      then show ?thesis by simp
    next
      case 2
      from 2(1) have "i - k = Suc (i - Suc k)" by simp
      with 2 show ?thesis by simp
    qed
  qed
  have "snd (fold (matchStep tol c) (enumerate k (b # bs)) st) =
      snd (fold (matchStep tol c) (enumerate (Suc k) bs) (matchStep tol c (k, b) st))"
    by simp
  also have "\<dots> = snd (matchStep tol c (k, b) st) \<union>
      {i. Suc k \<le> i \<and> i < Suc k + length bs \<and> distance c (bs ! (i - Suc k)) < tol}"
    by (rule Cons.IH)
  also have "\<dots> = snd st \<union> {i. k \<le> i \<and> i < k + length (b # bs) \<and> distance c ((b # bs) ! (i - k)) < tol}"
    unfolding split matchStep_used by auto
  finally show ?case .
qed

lemma matchRows:
  assumes "finite (snd st)" and "length (fst st) = card (snd st)"
  shows "finite (snd (fold (matchRow tol coords2) coords1 st)) \<and>
         length (fst (fold (matchRow tol coords2) coords1 st)) =
           card (snd (fold (matchRow tol coords2) coords1 st)) \<and>
         snd (fold (matchRow tol coords2) coords1 st) =
           snd st \<union> {i. i < length coords2 \<and> (\<exists>p \<in> set coords1. distance p (coords2 ! i) < tol)}"
  using assms
proof (induction coords1 arbitrary: st)
  case Nil
  then show ?case by simp
next
  case (Cons c cs)
  let ?st = "matchRow tol coords2 c st"
  from matchRow_count [OF Cons.prems, of tol c "enumerate 0 coords2"]
  have fin: "finite (snd ?st)" and cnt: "length (fst ?st) = card (snd ?st)"
    by (simp_all add: matchRow_def)
  have used: "snd ?st = snd st \<union> {i. i < length coords2 \<and> distance c (coords2 ! i) < tol}"
    using matchRow_used [of tol c 0 coords2 st] by (simp add: matchRow_def)
  from Cons.IH [OF fin cnt] used show ?case
    by (simp only: fold_simps) auto
qed

lemma length_sharedPoints:
  "length (sharedPoints tol coords1 coords2) =
   card {i. i < length coords2 \<and> (\<exists>p \<in> set coords1. distance p (coords2 ! i) < tol)}"
  using matchRows [of "([], {})" tol coords2 coords1] by (simp add: sharedPoints_def)


text \<open>
  Claim C5. For every feature collection and either generator, every emitted segment
  carries exactly two distinct region labels and at least two coordinate points, and
  it stems from two countries of the collection whose rings share at least two points.
  A country pair whose rings share fewer than two points within the tolerance
  contributes nothing: the list of boundaries is returned as it was. The shared points
  that the loop records are as many as the points of the second ring that lie within
  the tolerance of some point of the first ring.
\<close>

theorem C5_boundary_segments:
  "(createManualRegionBoundaries cs = Inr bs \<or> createDataDrivenRegionBoundaries cs = Inr bs \<longrightarrow>
      (\<forall>b \<in> set bs. length (regions b) = 2 \<and> distinct (regions b) \<and> 2 \<le> length (coordinates b) \<and>
         emittedFrom cs b)) \<and>
   (extractCoordinates (geometry c1) = Inr (Some ring1) \<and>
    extractCoordinates (geometry c2) = Inr (Some ring2) \<and>
    length (sharedPoints tolerance ring1 ring2) < 2 \<longrightarrow>
      pushBoundary tag r1 r2 c1 c2 boundaries = Inr boundaries) \<and>
   length (sharedPoints tolerance ring1 ring2) =
     card {i. i < length ring2 \<and> (\<exists>p \<in> set ring1. distance p (ring2 ! i) < tolerance)}"
proof (intro conjI impI)
  assume "createManualRegionBoundaries cs = Inr bs \<or> createDataDrivenRegionBoundaries cs = Inr bs"
  then have "\<forall>b \<in> set bs. wellFormedSegment b \<and> emittedFrom cs b"
    using createManualRegionBoundaries_invariant [of cs bs]
      createDataDrivenRegionBoundaries_invariant [of cs bs]
    by blast
  then show "\<forall>b \<in> set bs. length (regions b) = 2 \<and> distinct (regions b) \<and>
      2 \<le> length (coordinates b) \<and> emittedFrom cs b"
    by (simp add: wellFormedSegment_def)
next
  assume "extractCoordinates (geometry c1) = Inr (Some ring1) \<and>
    extractCoordinates (geometry c2) = Inr (Some ring2) \<and>
    length (sharedPoints tolerance ring1 ring2) < 2"
  then show "pushBoundary tag r1 r2 c1 c2 boundaries = Inr boundaries"
    using pushBoundary_few [of c1 ring1 c2 ring2 tag r1 r2 boundaries] by blast
next
  show "length (sharedPoints tolerance ring1 ring2) =
     card {i. i < length ring2 \<and> (\<exists>p \<in> set ring1. distance p (ring2 ! i) < tolerance)}"
    by (rule length_sharedPoints)
qed

lemma distance_less_iff:
  "distance a b < t \<longleftrightarrow> 0 < t \<and> (fst a - fst b)\<^sup>2 + (snd a - snd b)\<^sup>2 < t\<^sup>2"
proof (cases "0 < t")
  case True
  then have "sqrt (t\<^sup>2) = t" by simp
  then have "distance a b < t \<longleftrightarrow> sqrt ((fst a - fst b)\<^sup>2 + (snd a - snd b)\<^sup>2) < sqrt (t\<^sup>2)"
    by (simp add: distance_def)
  also have "\<dots> \<longleftrightarrow> (fst a - fst b)\<^sup>2 + (snd a - snd b)\<^sup>2 < t\<^sup>2"
    by (rule real_sqrt_less_iff)
  finally show ?thesis using True by blast
next
  case False
  have "0 \<le> distance a b" by (simp add: distance_def)
  with False show ?thesis by simp
qed

lemma within_tolerance:
  "distance a b < tolerance \<longleftrightarrow> (fst a - fst b)\<^sup>2 + (snd a - snd b)\<^sup>2 < 1 / 10000"
  unfolding tolerance_def using distance_less_iff [of a b "0.01"] by (simp add: power2_eq_square)

lemma shared_example:
  "sharedPoints tolerance [(0, 0), (1, 0), (1, 1)] [(1, 0), (2, 0), (1, 1)] = [(1, 0), (1, 1)]"
  "sharedPoints tolerance [(0, 0), (1, 0), (1, 1)] [(1, 1), (2, 2), (3, 3)] = [(1, 1)]"
  by (simp_all add: sharedPoints_def matchRow_def matchStep_def within_tolerance)

lemma example_key:
  "dataDrivenRegionKey (exampleCountry code ''Western Europe'' r) = ''europe_western_europe''"
  "dataDrivenRegionKey (exampleCountry code ''Southern Europe'' r) = ''europe_southern_europe''"
  by (simp_all add: dataDrivenRegionKey_def exampleCountry_def or_default_def js_or_def truthy_def
      regionSlug_def toLowerCase_def lowerChar_def isSpaceOrAmp_def)

lemma example_code: "getCountryCode (exampleCountry ''FR'' s r) = Some ''FR''"
  "getCountryCode (exampleCountry ''ES'' s r) = Some ''ES''"
  by (simp_all add: getCountryCode_def exampleCountry_def truthy_def)

lemma example_ring: "extractCoordinates (geometry (exampleCountry code s r)) = Inr (Some r)"
  by (simp add: extractCoordinates_def exampleCountry_def firstRing_def)

lemma example_boundaries:
  "createDataDrivenRegionBoundaries
     [exampleCountry ''FR'' ''Western Europe'' [(0, 0), (1, 0), (1, 1)],
      exampleCountry ''ES'' ''Southern Europe'' [(1, 0), (2, 0), (1, 1)]] =
   Inr [\<lparr>coordinates = [(1, 0), (1, 1)],
         regions = [''europe_western_europe'', ''europe_southern_europe''],
         countries = [Some ''FR'', Some ''ES''],
         boundary_id = ''boundary_europe_western_europe_europe_southern_europe_0'',
         boundary_type = ''data_driven_boundary''\<rparr>]"
  by (simp add: createDataDrivenRegionBoundaries_def createDataDrivenRegions_def example_key
      pushRegionPair_def pushBoundary_def example_ring findSharedBoundary_def shared_example
      sortBoundaryPoints_def example_code)

theorem C5_boundary_segments_witness:
  "createDataDrivenRegionBoundaries
     [exampleCountry ''FR'' ''Western Europe'' [(0, 0), (1, 0), (1, 1)],
      exampleCountry ''ES'' ''Southern Europe'' [(1, 0), (2, 0), (1, 1)]] =
   Inr [\<lparr>coordinates = [(1, 0), (1, 1)],
         regions = [''europe_western_europe'', ''europe_southern_europe''],
         countries = [Some ''FR'', Some ''ES''],
         boundary_id = ''boundary_europe_western_europe_europe_southern_europe_0'',
         boundary_type = ''data_driven_boundary''\<rparr>] \<and>
   emittedFrom
     [exampleCountry ''FR'' ''Western Europe'' [(0, 0), (1, 0), (1, 1)],
      exampleCountry ''ES'' ''Southern Europe'' [(1, 0), (2, 0), (1, 1)]]
     \<lparr>coordinates = [(1, 0), (1, 1)],
       regions = [''europe_western_europe'', ''europe_southern_europe''],
       countries = [Some ''FR'', Some ''ES''],
       boundary_id = ''boundary_europe_western_europe_europe_southern_europe_0'',
       boundary_type = ''data_driven_boundary''\<rparr> \<and>
   length (sharedPoints tolerance [(0, 0), (1, 0), (1, 1)] [(1, 1), (2, 2), (3, 3)]) < 2 \<and>
   pushBoundary ''data_driven_boundary'' ''europe_western_europe'' ''europe_southern_europe''
     (exampleCountry ''FR'' ''Western Europe'' [(0, 0), (1, 0), (1, 1)])
     (exampleCountry ''IT'' ''Southern Europe'' [(1, 1), (2, 2), (3, 3)]) [] = Inr []"
proof -
  note c = C5_boundary_segments
    [of "[exampleCountry ''FR'' ''Western Europe'' [(0, 0), (1, 0), (1, 1)],
          exampleCountry ''ES'' ''Southern Europe'' [(1, 0), (2, 0), (1, 1)]]"
        "[\<lparr>coordinates = [(1, 0), (1, 1)],
          regions = [''europe_western_europe'', ''europe_southern_europe''],
          countries = [Some ''FR'', Some ''ES''],
          boundary_id = ''boundary_europe_western_europe_europe_southern_europe_0'',
          boundary_type = ''data_driven_boundary''\<rparr>]"
        "exampleCountry ''FR'' ''Western Europe'' [(0, 0), (1, 0), (1, 1)]"
        "[(0, 0), (1, 0), (1, 1)]"
        "exampleCountry ''IT'' ''Southern Europe'' [(1, 1), (2, 2), (3, 3)]"
        "[(1, 1), (2, 2), (3, 3)]"
        "''data_driven_boundary''" "''europe_western_europe''" "''europe_southern_europe''" "[]"]
  have few: "length (sharedPoints tolerance [(0, 0), (1, 0), (1, 1)] [(1, 1), (2, 2), (3, 3)]) < 2"
    by (simp add: shared_example)
  from c [THEN conjunct1] c [THEN conjunct2, THEN conjunct1] example_boundaries few show ?thesis
    by (simp add: example_ring)
qed


subsection \<open>Admitted features\<close>

lemma dom_inner: "dom (fold (\<lambda>country a. a(country \<mapsto> r)) cs acc) = dom acc \<union> set cs"
  by (induction cs arbitrary: acc) auto

lemma dom_assignRegions: "dom (fold assignRegion rs acc) = dom acc \<union> (\<Union>e \<in> set rs. set (snd e))"
  by (induction rs arbitrary: acc) (auto simp: assignRegion_def dom_inner)

lemma dom_REGION_MAPPING: "dom REGION_MAPPING = (\<Union>e \<in> set REGIONS. set (snd e))"
  by (simp add: REGION_MAPPING_def dom_assignRegions)

lemma region_member:
  "code \<in> (\<Union>e \<in> set REGIONS. set (snd e)) \<longleftrightarrow> REGION_MAPPING code \<noteq> None"
  unfolding dom_REGION_MAPPING [symmetric] by (simp add: domIff)

lemma hasRegion_iff:
  "hasRegion f \<longleftrightarrow>
    (\<exists>code. getCountryCode f = Some code \<and>
       (code \<in> (\<Union>e \<in> set REGIONS. set (snd e)) \<or> code \<in> set inheritedKeys))"
  unfolding region_member by (auto simp: hasRegion_def split: option.splits)

lemma getCountryCode_geometry: "getCountryCode (f\<lparr>geometry := g\<rparr>) = getCountryCode f"
  by (simp add: getCountryCode_def)

lemma loadCountries_admitted:
  assumes "f \<in> set (loadCountries rewind features)"
  shows "\<exists>code. getCountryCode f = Some code \<and>
           (REGION_MAPPING code \<noteq> None \<or> code \<in> set inheritedKeys) \<and>
           code \<notin> EXCLUDED_COUNTRIES"
proof -
  from assms obtain f0 where f0: "f = f0\<lparr>geometry := rewind (geometry f0)\<rparr>"
    "hasRegion f0" "notExcluded f0"
    by (auto simp: loadCountries_def Let_def)
  from f0(2) obtain code where code: "getCountryCode f0 = Some code"
    "REGION_MAPPING code \<noteq> None \<or> code \<in> set inheritedKeys"
    by (auto simp: hasRegion_def split: option.splits)
  from f0(3) code(1) have "code \<notin> EXCLUDED_COUNTRIES"
    by (simp add: notExcluded_def)
  moreover have "getCountryCode f = Some code"
    by (simp add: f0(1) getCountryCode_geometry code(1))
  ultimately show ?thesis using code(2) by blast
qed

lemma getCountryCode_extend: "getCountryCode (feature.extend f x) = getCountryCode f"
proof -
  have "properties (feature.extend f x) = properties f"
    by (simp add: feature.defs)
  then show ?thesis
    unfolding getCountryCode_def by simp
qed

lemma createPolygonData_code:
  assumes "p \<in> set (createPolygonData cs)"
  shows "\<exists>f \<in> set cs. getCountryCode p = getCountryCode f"
proof -
  from assms have "\<exists>a l. a < length cs \<and> p = feature.extend (cs ! a) \<lparr>layer = l, layer_index = a\<rparr>"
    by (auto simp: createPolygonData_def in_set_enumerate_eq) blast+
  then obtain a l where a: "a < length cs" and p: "p = feature.extend (cs ! a) \<lparr>layer = l, layer_index = a\<rparr>"
    by blast
  from a have "cs ! a \<in> set cs"
    by simp
  moreover have "getCountryCode p = getCountryCode (cs ! a)"
    unfolding p by (rule getCountryCode_extend)
  ultimately show ?thesis by blast
qed


text \<open>
  Every feature of the loaded collection, and every polygon made from it, has a resolved
  country code that is not excluded and that either the static region table assigns to a
  region or that names an inherited property; in either mode the boundary segments
  computed from the collection name only such codes.
\<close>

lemma admitted_features:
  "(\<forall>f \<in> set (loadCountries rewind features).
      \<exists>code. getCountryCode f = Some code \<and>
             (REGION_MAPPING code \<noteq> None \<or> code \<in> set inheritedKeys) \<and>
             code \<notin> EXCLUDED_COUNTRIES) \<and>
   (\<forall>p \<in> set (createPolygonData (loadCountries rewind features)).
      \<exists>code. getCountryCode p = Some code \<and>
             (REGION_MAPPING code \<noteq> None \<or> code \<in> set inheritedKeys) \<and>
             code \<notin> EXCLUDED_COUNTRIES) \<and>
   (updateRegionBoundaries useDataDrivenRegions (loadCountries rewind features) [] = Inr bs \<longrightarrow>
      (\<forall>b \<in> set bs. \<forall>c \<in> set (countries b).
         \<exists>code. c = Some code \<and> (REGION_MAPPING code \<noteq> None \<or> code \<in> set inheritedKeys) \<and>
                code \<notin> EXCLUDED_COUNTRIES))"
proof (intro conjI ballI impI)
  fix f assume "f \<in> set (loadCountries rewind features)"
  then show "\<exists>code. getCountryCode f = Some code \<and>
             (REGION_MAPPING code \<noteq> None \<or> code \<in> set inheritedKeys) \<and>
             code \<notin> EXCLUDED_COUNTRIES"
    by (rule loadCountries_admitted)
next
  fix p assume "p \<in> set (createPolygonData (loadCountries rewind features))"
  from createPolygonData_code [OF this] obtain f
    where "f \<in> set (loadCountries rewind features)" "getCountryCode p = getCountryCode f"
    by blast
  with loadCountries_admitted [of f rewind features]
  show "\<exists>code. getCountryCode p = Some code \<and>
             (REGION_MAPPING code \<noteq> None \<or> code \<in> set inheritedKeys) \<and>
             code \<notin> EXCLUDED_COUNTRIES"
    by auto
next
  fix b c
  assume upd: "updateRegionBoundaries useDataDrivenRegions (loadCountries rewind features) [] = Inr bs"
    and b: "b \<in> set bs" and c: "c \<in> set (countries b)"
  let ?fs = "loadCountries rewind features"
  have "emittedFrom (filter hasRegion ?fs) b"
  proof (cases "?fs = []")
    case True
    with upd b show ?thesis by (simp add: updateRegionBoundaries_def)
  next
    case False
    with upd have "createDataDrivenRegionBoundaries (filter hasRegion ?fs) = Inr bs \<or>
        createManualRegionBoundaries (filter hasRegion ?fs) = Inr bs"
      by (auto simp: updateRegionBoundaries_def Let_def split: if_splits)
    then show ?thesis
      using createDataDrivenRegionBoundaries_invariant [of "filter hasRegion ?fs" bs]
        createManualRegionBoundaries_invariant [of "filter hasRegion ?fs" bs] b
      by blast
  qed
  then obtain c1 c2 where "c1 \<in> set ?fs" "c2 \<in> set ?fs"
    "countries b = [getCountryCode c1, getCountryCode c2]"
    by (auto simp: emittedFrom_def)
  with c loadCountries_admitted [of c1 rewind features] loadCountries_admitted [of c2 rewind features]
  show "\<exists>code. c = Some code \<and> (REGION_MAPPING code \<noteq> None \<or> code \<in> set inheritedKeys) \<and>
                code \<notin> EXCLUDED_COUNTRIES"
    by auto
qed

lemma example_generic_code: "code \<noteq> [] \<Longrightarrow> code \<noteq> ''-99'' \<Longrightarrow> code \<noteq> ''n/a'' \<Longrightarrow>
    getCountryCode (exampleCountry code s r) = Some code"
  by (simp add: getCountryCode_def exampleCountry_def truthy_def)

lemma example_load:
  "loadCountries (\<lambda>g. g)
     [exampleCountry ''FR'' ''Western Europe'' [(0, 0), (1, 0), (1, 1)],
      exampleCountry ''GL'' ''Northern America'' [],
      exampleCountry ''SG'' ''South-Eastern Asia'' []] =
   [exampleCountry ''FR'' ''Western Europe'' [(0, 0), (1, 0), (1, 1)]]"
proof -
  have "hasRegion (exampleCountry ''FR'' ''Western Europe'' [(0, 0), (1, 0), (1, 1)])"
    unfolding hasRegion_iff by (simp add: example_generic_code REGIONS_def)
  moreover have "\<not> hasRegion (exampleCountry ''SG'' ''South-Eastern Asia'' [])"
    unfolding hasRegion_iff by (simp add: example_generic_code REGIONS_def inheritedKeys_def)
  moreover have "notExcluded (exampleCountry ''FR'' ''Western Europe'' [(0, 0), (1, 0), (1, 1)])"
    by (simp add: notExcluded_def example_generic_code EXCLUDED_COUNTRIES_def)
  moreover have "\<not> notExcluded (exampleCountry ''GL'' ''Northern America'' [])"
    by (simp add: notExcluded_def example_generic_code EXCLUDED_COUNTRIES_def)
  moreover have "notExcluded (exampleCountry ''SG'' ''South-Eastern Asia'' [])"
    by (simp add: notExcluded_def example_generic_code EXCLUDED_COUNTRIES_def)
  ultimately show ?thesis
    by (simp add: loadCountries_def)
qed

lemma constructor_unlisted:
  "''constructor'' \<notin> (\<Union>e \<in> set REGIONS. set (snd e))" "REGION_MAPPING ''constructor'' = None"
proof -
  show 1: "''constructor'' \<notin> (\<Union>e \<in> set REGIONS. set (snd e))"
    by (simp add: REGIONS_def)
  with region_member [of "''constructor''"] show "REGION_MAPPING ''constructor'' = None"
    by blast
qed

lemma constructor_admitted:
  "hasRegion (exampleCountry ''constructor'' s r)" "notExcluded (exampleCountry ''constructor'' s r)"
  by (simp_all add: hasRegion_def notExcluded_def example_generic_code inheritedKeys_def
      EXCLUDED_COUNTRIES_def)

lemma spain_admitted:
  "hasRegion (exampleCountry ''ES'' s r)" "notExcluded (exampleCountry ''ES'' s r)"
proof -
  show "hasRegion (exampleCountry ''ES'' s r)"
    unfolding hasRegion_iff by (simp add: example_generic_code REGIONS_def)
  show "notExcluded (exampleCountry ''ES'' s r)"
    by (simp add: notExcluded_def example_generic_code EXCLUDED_COUNTRIES_def)
qed

lemma constructor_boundaries:
  "createDataDrivenRegionBoundaries
     [exampleCountry ''constructor'' ''Western Europe'' [(0, 0), (1, 0), (1, 1)],
      exampleCountry ''ES'' ''Southern Europe'' [(1, 0), (2, 0), (1, 1)]] =
   Inr [\<lparr>coordinates = [(1, 0), (1, 1)],
         regions = [''europe_western_europe'', ''europe_southern_europe''],
         countries = [Some ''constructor'', Some ''ES''],
         boundary_id = ''boundary_europe_western_europe_europe_southern_europe_0'',
         boundary_type = ''data_driven_boundary''\<rparr>]"
  by (simp add: createDataDrivenRegionBoundaries_def createDataDrivenRegions_def example_key
      pushRegionPair_def pushBoundary_def example_ring findSharedBoundary_def shared_example
      sortBoundaryPoints_def example_generic_code)

text \<open>
  Claim C10: every feature admitted to classification, boundary extraction and height
  computation has a resolved country code that is present in the static region table
  and not excluded, also in the derived mode. The two filters are written to keep the
  countries that have a region assigned, but they test \<open>REGION_MAPPING[code]\<close> on a plain
  object. A feature whose \<open>ISO_A2\<close> is \<open>constructor\<close> is in no region of the table,
  yet it is loaded, and in the derived mode a boundary segment names it.
\<close>

theorem C10_inherited_key_admitted:
  "getCountryCode (exampleCountry ''constructor'' ''Western Europe'' [(0, 0), (1, 0), (1, 1)]) =
     Some ''constructor'' \<and>
   ''constructor'' \<notin> (\<Union>e \<in> set REGIONS. set (snd e)) \<and>
   REGION_MAPPING ''constructor'' = None \<and>
   loadCountries (\<lambda>g. g)
     [exampleCountry ''constructor'' ''Western Europe'' [(0, 0), (1, 0), (1, 1)],
      exampleCountry ''ES'' ''Southern Europe'' [(1, 0), (2, 0), (1, 1)]] =
     [exampleCountry ''constructor'' ''Western Europe'' [(0, 0), (1, 0), (1, 1)],
      exampleCountry ''ES'' ''Southern Europe'' [(1, 0), (2, 0), (1, 1)]] \<and>
   updateRegionBoundaries True
     (loadCountries (\<lambda>g. g)
       [exampleCountry ''constructor'' ''Western Europe'' [(0, 0), (1, 0), (1, 1)],
        exampleCountry ''ES'' ''Southern Europe'' [(1, 0), (2, 0), (1, 1)]]) [] =
     Inr [\<lparr>coordinates = [(1, 0), (1, 1)],
           regions = [''europe_western_europe'', ''europe_southern_europe''],
           countries = [Some ''constructor'', Some ''ES''],
           boundary_id = ''boundary_europe_western_europe_europe_southern_europe_0'',
           boundary_type = ''data_driven_boundary''\<rparr>]"
proof -
  have load: "loadCountries (\<lambda>g. g)
     [exampleCountry ''constructor'' ''Western Europe'' [(0, 0), (1, 0), (1, 1)],
      exampleCountry ''ES'' ''Southern Europe'' [(1, 0), (2, 0), (1, 1)]] =
     [exampleCountry ''constructor'' ''Western Europe'' [(0, 0), (1, 0), (1, 1)],
      exampleCountry ''ES'' ''Southern Europe'' [(1, 0), (2, 0), (1, 1)]]"
    by (simp add: loadCountries_def constructor_admitted spain_admitted)
  have "updateRegionBoundaries True
     [exampleCountry ''constructor'' ''Western Europe'' [(0, 0), (1, 0), (1, 1)],
      exampleCountry ''ES'' ''Southern Europe'' [(1, 0), (2, 0), (1, 1)]] [] =
     createDataDrivenRegionBoundaries
       [exampleCountry ''constructor'' ''Western Europe'' [(0, 0), (1, 0), (1, 1)],
        exampleCountry ''ES'' ''Southern Europe'' [(1, 0), (2, 0), (1, 1)]]"
    by (simp add: updateRegionBoundaries_def constructor_admitted spain_admitted)
  then show ?thesis
    unfolding load constructor_boundaries
    using constructor_unlisted(1) by (simp add: example_generic_code constructor_unlisted(2))
qed

subsection \<open>Heights of values that are no outliers\<close>

text \<open>
  While \<open>adjustedMax\<close> stays above the minimum, the height of a positive value that is
  no outlier lies between the base height and the base height plus the multiplier.
\<close>

lemma Math_pow_unit:
  assumes "0 \<le> n" and "n \<le> 1" and "0 < y"
  shows "\<exists>m. Math_pow n y = Some m \<and> 0 \<le> m \<and> m \<le> 1"
proof (cases "n = 0")
  case True
  with assms(3) show ?thesis by (simp add: Math_pow_def)
next
  case False
  with assms(1) have pos: "0 < n" by simp
  have "n powr y \<le> 1"
    using assms by (intro powr_le1) simp_all
  with pos assms(3) show ?thesis by (simp add: Math_pow_def)
qed

lemma smooth_unit: "0 \<le> m \<Longrightarrow> m \<le> 1 \<Longrightarrow> 0 \<le> smooth e m \<and> smooth e m \<le> 1"
  unfolding smooth_def by (auto simp: field_simps)

lemma scale_unit:
  assumes "values_st st \<noteq> []" and "0 \<le> n" and "n \<le> 1"
  shows "\<exists>m. scaleNormalized filterKey st (Some n) = Some m \<and> 0 \<le> m \<and> m \<le> 1"
proof (cases "isBuiltIn filterKey")
  case True
  from Math_pow_unit [OF assms(2,3), of "0.7"] Math_pow_unit [OF assms(2,3), of "0.6"]
  show ?thesis using True assms(2,3) by (auto simp: scaleNormalized_def)
next
  case False
  from assms(1) obtain e where e: "adaptiveExponent st = Some e"
    by (auto simp: adaptiveExponent_def Let_def)
  then have "0.3 \<le> e"
    by (auto simp: adaptiveExponent_def Let_def boundExponent_def max_def min_def split: if_splits)
  then have "0 < e" by simp
  from Math_pow_unit [OF assms(2,3) this] obtain m where m: "Math_pow n e = Some m" "0 \<le> m" "m \<le> 1"
    by blast
  with False e smooth_unit [OF m(2,3), of e] show ?thesis
    by (simp add: scaleNormalized_def)
qed

lemma heightMultiplier_pos: "0 < heightMultiplier filterKey"
  by (simp add: heightMultiplier_def Let_def)

lemma height_in_range_above_min:
  assumes "map_of (HEIGHT_GETTERS ext) filterKey = Some g"
    and "heightStats ext features filterKey = Inr st"
    and "f \<in> set features" and "0 < g f" and "g f \<notin> set (outliers st)"
    and "min_st st < max_st st" and "min_st st < adjustedMax st"
  shows "\<exists>h. calculatedHeight ext filterKey st f = Inr (Some h) \<and>
           baseHeight \<le> h \<and> h \<le> baseHeight + heightMultiplier filterKey"
proof -
  let ?vs = "positiveValues g features"
  have mem: "g f \<in> set ?vs"
    using assms(3,4) by (auto simp: positiveValues_def)
  then have ne: "?vs \<noteq> []" by auto
  from heightStats_Some [OF assms(1) ne] assms(2) have st: "st = statsOf ?vs" by simp
  have vals: "values_st st \<noteq> []"
    using ne by (simp add: st statsOf_def)
  have "min_st st = Min (set ?vs)"
    by (simp add: st statsOf_def Math_min_eq [OF ne])
  with mem have ge: "min_st st \<le> g f" by simp
  define n where "n = min 1 ((g f - min_st st) / (adjustedMax st - min_st st))"
  have nv: "normalizedValue st (g f) = Some n"
    using assms(5,7) by (simp add: normalizedValue_def Let_def n_def)
  have "0 \<le> n" "n \<le> 1"
    using ge assms(7) by (simp_all add: n_def)
  from scale_unit [OF vals this, of filterKey] obtain m
    where m: "scaleNormalized filterKey st (Some n) = Some m" "0 \<le> m" "m \<le> 1"
    by blast
  have key: "filterKey \<noteq> ''none''"
    using assms(1) by (auto simp: HEIGHT_GETTERS_none)
  have "calculatedHeight ext filterKey st f = Inr (Some (m * heightMultiplier filterKey + baseHeight))"
    using key assms(1,4,5,6) nv m(1) by (simp add: calculatedHeight_def Let_def)
  moreover have "0 \<le> m * heightMultiplier filterKey"
    using m(2) heightMultiplier_pos [of filterKey] by simp
  moreover have "m * heightMultiplier filterKey \<le> heightMultiplier filterKey"
    using m(3) heightMultiplier_pos [of filterKey] by (simp add: mult_left_le_one_le)
  ultimately show ?thesis by simp
qed

lemma crushed_stats:
  "isExtremeCrusher [20, 21, 21, 21, 22]"
  "statsOf [20, 21, 21, 21, 22] =
     \<lparr>max_st = 22, min_st = 20, mean = 21, median = 21, values_st = [20, 21, 21, 21, 22],
      adjustedMax = 88 / 5, outliers = [22]\<rparr>"
proof -
  show c: "isExtremeCrusher [20, 21, 21, 21, 22]"
    by (simp add: isExtremeCrusher_eq guarded_crusher_def spec_percentile_def)
  have o: "findOutliers [20, 21, 21, 21, 22] = [22]"
    unfolding findOutliers_def outlierThreshold_eq atFraction_95 meanOf_eq
    by (simp add: spec_percentile_def spec_mean_def)
  have d: "dampenedMax [20, 21, 21, 21, 22] = 88 / 5"
    unfolding dampenedMax_def Let_def atFraction_95 meanOf_eq medianOf_eq
    by (simp add: spec_percentile_def spec_mean_def spec_median_def)
  show "statsOf [20, 21, 21, 21, 22] =
     \<lparr>max_st = 22, min_st = 20, mean = 21, median = 21, values_st = [20, 21, 21, 21, 22],
      adjustedMax = 88 / 5, outliers = [22]\<rparr>"
    unfolding statsOf_def meanOf_eq medianOf_eq using c o d
    by (simp add: spec_mean_def spec_median_def)
qed


text \<open>
  Claim C4: for every feature whose value is positive and no outlier, with the maximum
  above the minimum, the height before the hover effects lies within
  \<open>[baseHeight, baseHeight + heightMultiplier]\<close>. The code misses the case of a dampened
  maximum at or below the minimum. For the GDP values 22, 20, 21, 21, 21 the maximum 22
  exceeds the outlier threshold 21, \<open>adjustedMax\<close> is clamped down to
  \<open>0.8 * 22 = 17.6\<close>, below the minimum 20, and the feature with the value 21, which is
  no outlier, is normalised to \<open>(21 - 20) / (17.6 - 20)\<close> and gets the height \<open>-0.12\<close>,
  below the base height.
\<close>

theorem C4_height_below_base:
  "heightStats (\<lambda>k p. Throws) (map sampleFeature [22, 20, 21, 21, 21]) ''gdp'' =
     Inr (statsOf [20, 21, 21, 21, 22]) \<and>
   wrapGetter gdpGetter (sampleFeature 21) = 21 \<and>
   21 \<notin> set (outliers (statsOf [20, 21, 21, 21, 22])) \<and>
   min_st (statsOf [20, 21, 21, 21, 22]) < max_st (statsOf [20, 21, 21, 21, 22]) \<and>
   adjustedMax (statsOf [20, 21, 21, 21, 22]) < min_st (statsOf [20, 21, 21, 21, 22]) \<and>
   calculatedHeight (\<lambda>k p. Throws) ''gdp'' (statsOf [20, 21, 21, 21, 22]) (sampleFeature 21) =
     Inr (Some (- 3 / 25)) \<and>
   - 3 / 25 < baseHeight"
proof -
  have g: "map_of (HEIGHT_GETTERS (\<lambda>k p. Throws)) ''gdp'' = Some (wrapGetter gdpGetter)"
    by (rule HEIGHT_GETTERS_gdp)
  have vs: "positiveValues (wrapGetter gdpGetter) (map sampleFeature [22, 20, 21, 21, 21]) = [20, 21, 21, 21, 22]"
    by (simp add: positiveValues_def gdp_sample)
  have "heightStats (\<lambda>k p. Throws) (map sampleFeature [22, 20, 21, 21, 21]) ''gdp'' =
     Inr (statsOf [20, 21, 21, 21, 22])"
    using heightStats_Some [OF g, of "map sampleFeature [22, 20, 21, 21, 21]"] vs by simp
  moreover have "normalizedValue (statsOf [20, 21, 21, 21, 22]) 21 = Some (- 5 / 12)"
    by (simp add: crushed_stats(2) normalizedValue_def)
  then have "calculatedHeight (\<lambda>k p. Throws) ''gdp'' (statsOf [20, 21, 21, 21, 22]) (sampleFeature 21) =
     Inr (Some (- 3 / 25))"
    by (simp add: calculatedHeight_def g gdp_sample crushed_stats(2) scaleNormalized_def isBuiltIn_def
        heightMultiplier_def baseHeight_def)
  ultimately show ?thesis
    by (simp add: crushed_stats(2) gdp_sample baseHeight_def)
qed

end
